theory Spec2Isabelle
  imports Complex_Main "HOL-Library.AList"
begin

section \<open>JavaScript numbers and strings\<close>

text \<open>
  The two control panels of \<^verbatim>\<open>src/components/ControlPanel.tsx\<close> read their form
  fields as strings, turn them into numbers with \<^verbatim>\<open>parseFloat\<close> and
  \<^verbatim>\<open>parseInt\<close>, compare them with numeric literals and splice them into request
  paths and toast texts with template literals.

  A number is an IEEE double: \<open>NaN\<close>, one of the two infinities, or a finite
  double written in decimal. \<open>Fin m e\<close> stands for the double nearest to
  \<open>m * 10 ^ e\<close>. The parsers round what they read to the nearest double (ties to
  the even mantissa, underflow to 0, overflow to \<open>Infinity\<close>) and return it by its
  shortest decimal, the one \<^verbatim>\<open>Number::toString\<close> prints: \<open>0.25\<close> is \<open>Fin 25 (- 2)\<close>,
  \<open>1000000.00000000001\<close> is \<open>Fin 1 6\<close>. The shortest decimals of two doubles are
  ordered as the doubles are, and the shortest decimal of 0, of 100 and of 1000000
  is that number itself, so the comparisons of the panels are comparisons of
  decimals. The sign of zero is not modelled: the panels never tell \<open>-0\<close> from
  \<open>0\<close>.
\<close>

datatype number = NaN | Infinity | NegInfinity | Fin int int

text \<open>The rational a decimal stands for.\<close>

definition mag :: "int \<Rightarrow> int \<Rightarrow> rat" where
  "mag m e = of_int m * 10 powi e"

definition isNaN :: "number \<Rightarrow> bool" where
  "isNaN v = (case v of NaN \<Rightarrow> True | _ \<Rightarrow> False)"

text \<open>
  The operator \<^verbatim>\<open><\<close> on numbers: any comparison with \<open>NaN\<close> is false. Two finite
  numbers are brought to their smaller exponent and compared as integers.
\<close>

fun js_less :: "number \<Rightarrow> number \<Rightarrow> bool" where
  "js_less NaN _ = False"
| "js_less _ NaN = False"
| "js_less Infinity _ = False"
| "js_less _ Infinity = True"
| "js_less NegInfinity NegInfinity = False"
| "js_less NegInfinity _ = True"
| "js_less _ NegInfinity = False"
| "js_less (Fin m e) (Fin n f) =
     (m * 10 ^ nat (e - min e f) < n * 10 ^ nat (f - min e f))"

text \<open>The operators \<^verbatim>\<open>></\<close> and \<^verbatim>\<open><=\<close>: \<open>a > b\<close> is \<open>b < a\<close>, and \<open>a <= b\<close> is
  "neither is \<open>NaN\<close> and not \<open>b < a\<close>".\<close>

definition js_greater :: "number \<Rightarrow> number \<Rightarrow> bool" where
  "js_greater a b = js_less b a"

definition js_less_eq :: "number \<Rightarrow> number \<Rightarrow> bool" where
  "js_less_eq a b = (\<not> isNaN a \<and> \<not> isNaN b \<and> \<not> js_less b a)"

subsection \<open>Rounding to a double\<close>

text \<open>\<open>pow b n\<close> is \<open>b ^ n\<close> for \<open>n \<ge> 0\<close> and 1 below; \<open>len b n\<close> is the number of
  digits of \<open>n > 0\<close> in base \<open>b\<close>.\<close>

function pow :: "int \<Rightarrow> int \<Rightarrow> int" where
  "pow b n = (if n \<le> 0 then 1 else b * pow b (n - 1))"
  by pat_completeness auto
termination
  by (relation "measure (\<lambda>(b, n). nat n)") auto

declare pow.simps [simp del]

function len :: "int \<Rightarrow> int \<Rightarrow> int" where
  "len b n = (if n \<le> 0 \<or> b \<le> 1 then 0 else 1 + len b (n div b))"
  by pat_completeness auto
termination
  by (relation "measure (\<lambda>(b, n). nat n)") (auto simp add: int_div_less_self)

declare len.simps [simp del]

text \<open>
  Positive rationals are fractions \<open>(N, D)\<close> of positive integers. \<open>scaled b N D s\<close>
  is \<open>N / D\<close> divided by \<open>b ^ s\<close>, and \<open>ilog b N D\<close> is the integer part of the
  logarithm of \<open>N / D\<close> to the base \<open>b\<close>: with \<open>t\<close> the difference of the digit counts
  it is \<open>t\<close> or \<open>t - 1\<close>.
\<close>

definition scaled :: "int \<Rightarrow> int \<Rightarrow> int \<Rightarrow> int \<Rightarrow> int \<times> int" where
  "scaled b N D s = (N * pow b (- s), D * pow b s)"

definition ilog :: "int \<Rightarrow> int \<Rightarrow> int \<Rightarrow> int" where
  "ilog b N D =
     (let t = len b N - len b D in if D * pow b t \<le> N * pow b (- t) then t else t - 1)"

text \<open>The integer nearest to a fraction, the even one of two equally near.\<close>

definition roundHalfEven :: "int \<times> int \<Rightarrow> int" where
  "roundHalfEven f =
     (let q = fst f div snd f; r = fst f mod snd f
      in if snd f < 2 * r \<or> (snd f = 2 * r \<and> odd q) then q + 1 else q)"

text \<open>
  The double nearest to a positive fraction, as the pair \<open>(M, E)\<close> of its mantissa
  and exponent: the double is \<open>M * 2 ^ E\<close> with \<open>2 ^ 52 \<le> M < 2 ^ 53\<close>, or with a
  smaller \<open>M\<close> at the least exponent \<open>- 1074\<close> (the subnormal numbers and 0). An
  exponent above 971 is beyond the largest double.
\<close>

definition toBinary64 :: "int \<times> int \<Rightarrow> int \<times> int" where
  "toBinary64 f =
     (let E = max (ilog 2 (fst f) (snd f) - 52) (- 1074);
          M = roundHalfEven (scaled 2 (fst f) (snd f) E)
      in if M = pow 2 53 then (pow 2 52, E + 1) else (M, E))"

text \<open>
  The shortest decimal of a double \<open>(M, E)\<close>. \<open>below k\<close> is the decimal of \<open>k\<close> digits
  just below the double (or equal to it), \<open>candidate k\<close> is that decimal or the one
  just above: the one that rounds to the double, the nearer of the two when both
  do. \<open>shortest\<close> takes the least \<open>k\<close> that has such a decimal; 17 digits always do.
\<close>

definition below :: "int \<Rightarrow> int \<times> int \<Rightarrow> int \<times> int" where
  "below k ME =
     (let x = scaled 2 (fst ME) 1 (- snd ME);
          sc = ilog 10 (fst x) (snd x) + 1 - k;
          y = scaled 10 (fst x) (snd x) sc
      in (fst y div snd y, sc))"

definition rounds_to :: "int \<times> int \<Rightarrow> int \<times> int \<Rightarrow> bool" where
  "rounds_to sx ME = (toBinary64 (scaled 10 (fst sx) 1 (- snd sx)) = ME)"

definition closer_below :: "int \<times> int \<Rightarrow> int \<times> int \<Rightarrow> bool" where
  "closer_below sx ME =
     (let x = scaled 2 (fst ME) 1 (- snd ME);
          y = scaled 10 (fst x) (snd x) (snd sx);
          r = fst y mod snd y
      in 2 * r < snd y \<or> (2 * r = snd y \<and> even (fst sx)))"

definition candidate :: "int \<Rightarrow> int \<times> int \<Rightarrow> int \<times> int" where
  "candidate k ME =
     (let lo = below k ME; hi = (fst lo + 1, snd lo)
      in if rounds_to lo ME \<and> (\<not> rounds_to hi ME \<or> closer_below lo ME) then lo
         else if rounds_to hi ME then hi
         else if closer_below lo ME then lo else hi)"

function shortest :: "int \<Rightarrow> int \<times> int \<Rightarrow> int \<times> int" where
  "shortest k ME =
     (if 17 \<le> k \<or> rounds_to (candidate k ME) ME then candidate k ME
      else shortest (k + 1) ME)"
  by pat_completeness auto
termination
  by (relation "measure (\<lambda>(k, ME). nat (17 - k))") auto

declare shortest.simps [simp del]

text \<open>A decimal \<open>(s, x)\<close>, standing for \<open>s * 10 ^ x\<close>, without the trailing zeros of \<open>s\<close>.\<close>

function strip10 :: "int \<times> int \<Rightarrow> int \<times> int" where
  "strip10 sx =
     (if fst sx \<noteq> 0 \<and> fst sx mod 10 = 0 then strip10 (fst sx div 10, snd sx + 1) else sx)"
  by pat_completeness auto
termination
  by (relation "measure (\<lambda>sx. nat \<bar>fst sx\<bar>)") auto

declare strip10.simps [simp del]

text \<open>
  The double nearest to \<open>m * 10 ^ e\<close>, by its shortest decimal. A decimal of at
  least 310 integer digits is above every double, and one below \<open>10 ^ - 324\<close> is
  nearer to 0 than to the least double above 0 (the two tests on \<open>n\<close> only save the
  rounding of very long numbers).
\<close>

definition double_of :: "int \<Rightarrow> int \<Rightarrow> number" where
  "double_of m e =
     (let n = len 10 \<bar>m\<bar> + e in
      if m = 0 \<or> n \<le> - 324 then Fin 0 0
      else if 309 < n then (if m < 0 then NegInfinity else Infinity)
      else
        let ME = toBinary64 (scaled 10 \<bar>m\<bar> 1 (- e)) in
        if 971 < snd ME then (if m < 0 then NegInfinity else Infinity)
        else if fst ME = 0 then Fin 0 0
        else
          let sx = strip10 (shortest 1 ME)
          in Fin (if m < 0 then - fst sx else fst sx) (snd sx))"

subsection \<open>Characters\<close>

text \<open>Strings are byte strings; of the white space \<^verbatim>\<open>parseFloat\<close> and \<^verbatim>\<open>parseInt\<close>
  skip, the ASCII part is modelled (tab, line feed, vertical tab, form feed, carriage
  return, space).\<close>

definition isWhiteSpace :: "char \<Rightarrow> bool" where
  "isWhiteSpace c = (c \<in> set [CHR 0x09, CHR 0x0A, CHR 0x0B, CHR 0x0C, CHR 0x0D, CHR '' ''])"

definition isDigit :: "char \<Rightarrow> bool" where
  "isDigit c = (c \<in> set ''0123456789'')"

definition isHexDigit :: "char \<Rightarrow> bool" where
  "isHexDigit c = (c \<in> set ''0123456789abcdefABCDEF'')"

definition digitVal :: "char \<Rightarrow> int" where
  "digitVal c =
     (case map_of (zip ''0123456789abcdefABCDEF''
                       [0, 1, 2, 3, 4, 5, 6, 7, 8, 9, 10, 11, 12, 13, 14, 15, 10, 11, 12, 13, 14, 15]) c of
        Some d \<Rightarrow> d
      | None \<Rightarrow> 0)"

text \<open>The value of a digit string in radix \<open>R\<close>, most significant digit first.\<close>

definition digitsVal :: "int \<Rightarrow> string \<Rightarrow> int" where
  "digitsVal R ds = foldl (\<lambda>a c. R * a + digitVal c) 0 ds"

text \<open>\<^verbatim>\<open>String.prototype.toUpperCase\<close>, on the ASCII letters.\<close>

definition toUpperCase :: "string \<Rightarrow> string" where
  "toUpperCase s =
     map (\<lambda>c. case map_of (zip ''abcdefghijklmnopqrstuvwxyz'' ''ABCDEFGHIJKLMNOPQRSTUVWXYZ'') c of
                 Some u \<Rightarrow> u
               | None \<Rightarrow> c) s"

text \<open>The decimal digits of a natural number, given as an integer.\<close>

function digits :: "int \<Rightarrow> string" where
  "digits n =
     (if n < 10 then [''0123456789'' ! nat n]
      else digits (n div 10) @ [''0123456789'' ! nat (n mod 10)])"
  by pat_completeness auto
termination
  by (relation "measure nat") auto

declare digits.simps [simp del]

subsection \<open>Reading numbers\<close>

text \<open>An optional sign in front of a literal: whether it is \<open>-\<close>, and the rest.\<close>

definition signed :: "string \<Rightarrow> bool \<times> string" where
  "signed t =
     (case t of
        [] \<Rightarrow> (False, [])
      | c # r \<Rightarrow>
          if c = CHR ''-'' then (True, r) else if c = CHR ''+'' then (False, r) else (False, t))"

text \<open>The exponent part \<open>e\<close>, \<open>E\<close> with an optional sign and digits, when the text
  starts with one; an \<open>e\<close> that no digit follows is not part of the literal.\<close>

definition exponentPart :: "string \<Rightarrow> int" where
  "exponentPart r =
     (case r of
        [] \<Rightarrow> 0
      | c # r' \<Rightarrow>
          if c = CHR ''e'' \<or> c = CHR ''E'' then
            (case signed r' of (neg, ds) \<Rightarrow>
               let n = digitsVal 10 (takeWhile isDigit ds) in if neg then - n else n)
          else 0)"

text \<open>
  \<^verbatim>\<open>parseFloat(s)\<close>: leading white space is skipped, the longest prefix that is a
  decimal literal (sign, \<open>Infinity\<close> or digits with an optional fraction and exponent)
  is read and whatever follows is ignored; \<open>NaN\<close> when there is no such prefix.
  The decimal read is rounded to the nearest double.
\<close>

definition parseFloat :: "string \<Rightarrow> number" where
  "parseFloat s =
     (case signed (dropWhile isWhiteSpace s) of (neg, u) \<Rightarrow>
        if take 8 u = ''Infinity'' then (if neg then NegInfinity else Infinity)
        else
          let ip = takeWhile isDigit u;
              r1 = dropWhile isDigit u;
              fp = (case r1 of [] \<Rightarrow> [] | c # r \<Rightarrow> if c = CHR ''.'' then takeWhile isDigit r else []);
              r2 = (case r1 of [] \<Rightarrow> [] | c # r \<Rightarrow> if c = CHR ''.'' then dropWhile isDigit r else r1);
              m = digitsVal 10 (ip @ fp)
          in if ip = [] \<and> fp = [] then NaN
             else double_of (if neg then - m else m) (exponentPart r2 - int (length fp)))"

text \<open>
  \<^verbatim>\<open>parseInt(s)\<close> with no radix: leading white space and a sign are skipped, a prefix
  \<open>0x\<close> selects radix 16, and the longest run of digits is read; \<open>NaN\<close> when there is
  none. Reading stops at the first character that is not a digit, so a fraction or
  an exponent is not read. The integer read is rounded to the nearest double.
\<close>

definition parseInt :: "string \<Rightarrow> number" where
  "parseInt s =
     (case signed (dropWhile isWhiteSpace s) of (neg, u) \<Rightarrow>
        let hex = (take 2 u = ''0x'' \<or> take 2 u = ''0X'');
            z = (if hex then takeWhile isHexDigit (drop 2 u) else takeWhile isDigit u);
            m = digitsVal (if hex then 16 else 10) z
        in if z = [] then NaN else double_of (if neg then - m else m) 0)"

subsection \<open>Printing numbers\<close>

text \<open>
  The conversion a template literal applies to a number (\<^verbatim>\<open>Number::toString\<close>, radix
  10): the shortest decimal of the double is printed. With \<open>s\<close> its digits without
  trailing zeros, \<open>k\<close> their count and \<open>n\<close> the position of the decimal point after
  the first digit of \<open>s\<close>, the result is the plain decimal for \<open>-6 < n \<le> 21\<close> and the
  exponent notation otherwise.
\<close>

definition printDecimal :: "int \<Rightarrow> int \<Rightarrow> string" where
  "printDecimal m e =
     (if m = 0 then ''0''
      else
        let ds = digits \<bar>m\<bar>;
            s = rev (dropWhile (\<lambda>c. c = CHR ''0'') (rev ds));
            k = int (length s);
            n = int (length ds) + e;
            body =
              (if k \<le> n \<and> n \<le> 21 then s @ replicate (nat (n - k)) (CHR ''0'')
               else if 0 < n \<and> n \<le> 21 then take (nat n) s @ ''.'' @ drop (nat n) s
               else if - 6 < n \<and> n \<le> 0 then ''0.'' @ replicate (nat (- n)) (CHR ''0'') @ s
               else
                 let ex = (if n - 1 < 0 then ''-'' else ''+'') @ digits \<bar>n - 1\<bar>
                 in if k = 1 then s @ ''e'' @ ex else take 1 s @ ''.'' @ drop 1 s @ ''e'' @ ex)
        in if m < 0 then ''-'' @ body else body)"

definition toString :: "number \<Rightarrow> string" where
  "toString v =
     (case v of
        NaN \<Rightarrow> ''NaN''
      | Infinity \<Rightarrow> ''Infinity''
      | NegInfinity \<Rightarrow> ''-Infinity''
      | Fin m e \<Rightarrow>
          (case double_of m e of
             NaN \<Rightarrow> ''NaN''
           | Infinity \<Rightarrow> ''Infinity''
           | NegInfinity \<Rightarrow> ''-Infinity''
           | Fin s x \<Rightarrow> printDecimal s x))"

section \<open>Effects of the panels\<close>

text \<open>
  What a handler does to the outside, in the order it does it: a toast (the
  notifier), a line on the console (its label; further arguments are left out) and
  a POST request, relative to the configured base URL, with its body.
\<close>

datatype variant = Default | Destructive

record toast =
  title :: string
  description :: string
  variant :: variant

type_synonym AxisValues = "(string \<times> number) list"

datatype body = NoBody | PositionBody AxisValues | WeightBody number

datatype event = Toast toast | ConsoleLog string | ConsoleError string | Post string body

text \<open>How the promise of \<^verbatim>\<open>api.post\<close> settles: any transport error or status
  outside 2xx rejects it.\<close>

datatype outcome = Fulfilled | Rejected

text \<open>The requests and the toasts of a trace.\<close>

fun requests :: "event list \<Rightarrow> (string \<times> body) list" where
  "requests [] = []"
| "requests (Post p b # es) = (p, b) # requests es"
| "requests (_ # es) = requests es"

fun notifications :: "event list \<Rightarrow> toast list" where
  "notifications [] = []"
| "notifications (Toast t # es) = t # notifications es"
| "notifications (_ # es) = notifications es"

text \<open>\<^verbatim>\<open>${data.x}\<close> in a template literal: the property printed, \<open>undefined\<close> when
  the object has none of that name.\<close>

definition property :: "AxisValues \<Rightarrow> string \<Rightarrow> string" where
  "property data k = (case map_of data k of None \<Rightarrow> ''undefined'' | Some v \<Rightarrow> toString v)"

section \<open>The crane panel\<close>

text \<open>
  The first component of the file ("Crane Axis Control Panel"). Its state is the
  state of the second component ("3D Control Panel") and three more fields. The
  axis values are an object with the properties \<open>x\<close>, \<open>y\<close>, \<open>z\<close>;
  \<^verbatim>\<open>{ ...axisValues, [axis]: v }\<close> is \<open>AList.update axis v axisValues\<close>.
\<close>

definition ERROR_TYPES :: "(string \<times> string) list" where
  "ERROR_TYPES =
     [(''calibration'', ''Calibration Error''),
      (''positioning'', ''Positioning Error''),
      (''sensor'', ''Sensor Error''),
      (''communication'', ''Communication Error''),
      (''mechanical'', ''Mechanical Error'')]"

definition AXIS_OPTIONS :: "(string \<times> string) list" where
  "AXIS_OPTIONS = [(''x'', ''X-Axis''), (''y'', ''Y-Axis''), (''z'', ''Z-Axis'')]"

record panel =
  axisValues :: AxisValues
  selectedError :: string
  selectedAxis :: string
  manualValue :: string

record crane = panel +
  vehicleCode :: string
  vehicleKey :: string
  weight :: string

definition initial_crane :: crane where
  "initial_crane =
     \<lparr>axisValues = [(''x'', Fin 0 0), (''y'', Fin 0 0), (''z'', Fin 0 0)],
      selectedError = [], selectedAxis = [], manualValue = [],
      vehicleCode = [], vehicleKey = [], weight = []\<rparr>"

text \<open>
  The senders are \<^verbatim>\<open>async\<close> functions: they run up to \<^verbatim>\<open>await api.post(...)\<close> when
  they are called and go on when the request settles. A sender returns the events
  of both parts: what it does at the call, and what it does once the request has
  settled as the \<open>outcome\<close> says. No sender touches the state of the panel.
\<close>

definition sendAxisData :: "AxisValues \<Rightarrow> string \<Rightarrow> outcome \<Rightarrow> event list \<times> event list" where
  "sendAxisData data source r =
     ([Post ''/position'' (PositionBody data)],
      case r of
        Fulfilled \<Rightarrow>
          [Toast \<lparr>title = ''Data sent successfully'',
                  description = ''X: '' @ property data ''x'' @ '', Y: '' @ property data ''y'' @ '', Z: ''
                    @ property data ''z'' @ '' (via '' @ source @ '')'',
                  variant = Default\<rparr>]
      | Rejected \<Rightarrow>
          [ConsoleError ''Error sending data:'',
           Toast \<lparr>title = ''Error sending data'', description = ''Failed to send axis values'',
                  variant = Destructive\<rparr>])"

definition sendIndividualAxisData :: "string \<Rightarrow> number \<Rightarrow> outcome \<Rightarrow> event list \<times> event list" where
  "sendIndividualAxisData axis value r =
     ([ConsoleLog ''Sending individual axis data:'',
       Post (''/'' @ toUpperCase axis @ ''/'' @ toString value) NoBody],
      case r of
        Fulfilled \<Rightarrow>
          [Toast \<lparr>title = ''Data sent successfully'',
                  description = toUpperCase axis @ '': '' @ toString value,
                  variant = Default\<rparr>]
      | Rejected \<Rightarrow>
          [ConsoleError ''Error sending individual axis data:'',
           Toast \<lparr>title = ''Error sending data'',
                  description = ''Failed to send '' @ axis @ '' axis value'',
                  variant = Destructive\<rparr>])"

definition sendWeightData :: "number \<Rightarrow> outcome \<Rightarrow> event list \<times> event list" where
  "sendWeightData weightValue r =
     ([ConsoleLog ''Sending weight data:'', Post ''/weight'' (WeightBody weightValue)],
      case r of
        Fulfilled \<Rightarrow>
          [Toast \<lparr>title = ''Weight data sent'', description = ''Weight: '' @ toString weightValue,
                  variant = Default\<rparr>]
      | Rejected \<Rightarrow>
          [ConsoleError ''Error sending weight data:'',
           Toast \<lparr>title = ''Error sending weight'', description = ''Failed to send weight data'',
                  variant = Destructive\<rparr>])"

text \<open>The argument \<open>data\<close> of \<^verbatim>\<open>sendVehicleCode\<close> is the pair of the two form fields,
  as strings.\<close>

definition sendVehicleCode :: "string \<times> string \<Rightarrow> string \<Rightarrow> outcome \<Rightarrow> event list \<times> event list" where
  "sendVehicleCode data source r =
     ([Post (''/vehicle/'' @ fst data @ ''/'' @ snd data) NoBody],
      case r of
        Fulfilled \<Rightarrow>
          [Toast \<lparr>title = ''Data sent successfully'',
                  description = ''Vehicle connected: '' @ fst data,
                  variant = Default\<rparr>]
      | Rejected \<Rightarrow>
          [ConsoleError ''Error sending data:'',
           Toast \<lparr>title = ''Error sending data'', description = ''Failed to connect vehicle'',
                  variant = Destructive\<rparr>])"

text \<open>\<^verbatim>\<open>sendErrorData\<close> awaits nothing: it is over when the call returns.\<close>

definition sendErrorData :: "string \<Rightarrow> event list" where
  "sendErrorData errorType =
     [ConsoleLog ''Sending error data:'',
      Toast \<lparr>title = ''Error reported'', description = ''Error type: '' @ errorType,
             variant = Default\<rparr>]"

text \<open>
  A handler reads the state the panel was rendered with and returns: the state
  after its setters (which the panel shows as soon as the handler is over, before
  any request settles), the events of the handler itself, and the events that
  follow when the request it started has settled.

  \<^verbatim>\<open>value[0]\<close> of an empty array is \<open>undefined\<close>, which is not a number: the slider
  passes one number per thumb and the panel has one thumb per axis; the model gives
  \<open>None\<close> for the empty array.
\<close>

definition handleSliderChange ::
  "crane \<Rightarrow> string \<Rightarrow> number list \<Rightarrow> outcome \<Rightarrow> (crane \<times> event list \<times> event list) option" where
  "handleSliderChange st axis value r =
     (case value of
        [] \<Rightarrow> None
      | value0 # _ \<Rightarrow>
          let newValues = AList.update axis value0 (axisValues st);
              sent = sendIndividualAxisData axis value0 r
          in Some (st\<lparr>axisValues := newValues\<rparr>, fst sent, snd sent))"

definition handleVehicleCodeFetch :: "crane \<Rightarrow> outcome \<Rightarrow> crane \<times> event list \<times> event list" where
  "handleVehicleCodeFetch st r =
     (if vehicleCode st = [] then
        (st, [Toast \<lparr>title = ''Invalid input'', description = ''Please enter vehicle Code'',
                     variant = Destructive\<rparr>], [])
      else if vehicleKey st = [] then
        (st, [Toast \<lparr>title = ''Invalid input'', description = ''Please enter vehicle Key'',
                     variant = Destructive\<rparr>], [])
      else
        let value = parseInt (vehicleCode st) in
        if isNaN value \<or> js_less value (Fin 0 0) \<or> js_greater value (Fin 1000000 0) then
          (st, [Toast \<lparr>title = ''Invalid value'', description = ''Please enter a valid vehicle code'',
                       variant = Destructive\<rparr>], [])
        else
          let sent = sendVehicleCode (vehicleCode st, vehicleKey st) ''empty'' r
          in (st\<lparr>vehicleCode := vehicleCode st, vehicleKey := vehicleKey st\<rparr>, fst sent, snd sent))"

definition handleManualSubmit :: "crane \<Rightarrow> outcome \<Rightarrow> crane \<times> event list \<times> event list" where
  "handleManualSubmit st r =
     (if selectedAxis st = [] \<or> manualValue st = [] then
        (st, [Toast \<lparr>title = ''Invalid input'',
                     description = ''Please select an axis and enter a value'',
                     variant = Destructive\<rparr>], [])
      else
        let value = parseFloat (manualValue st) in
        if isNaN value \<or> js_less value (Fin 0 0) \<or> js_greater value (Fin 1000000 0) then
          (st, [Toast \<lparr>title = ''Invalid value'',
                       description = ''Please enter a value between 0 and 1000000'',
                       variant = Destructive\<rparr>], [])
        else
          let newValues = AList.update (selectedAxis st) value (axisValues st);
              sent = sendIndividualAxisData (selectedAxis st) value r
          in (st\<lparr>axisValues := newValues, manualValue := [], selectedAxis := []\<rparr>,
              fst sent, snd sent))"

definition handleWeightSubmit :: "crane \<Rightarrow> outcome \<Rightarrow> crane \<times> event list \<times> event list" where
  "handleWeightSubmit st r =
     (if weight st = [] then
        (st, [Toast \<lparr>title = ''Invalid input'', description = ''Please enter a weight value'',
                     variant = Destructive\<rparr>], [])
      else
        let weightValue = parseFloat (weight st) in
        if isNaN weightValue \<or> js_less_eq weightValue (Fin 0 0) then
          (st, [Toast \<lparr>title = ''Invalid weight'', description = ''Please enter a valid weight value'',
                       variant = Destructive\<rparr>], [])
        else
          let sent = sendWeightData weightValue r
          in (st\<lparr>weight := []\<rparr>, fst sent, snd sent))"

definition handleErrorSubmit :: "crane \<Rightarrow> crane \<times> event list \<times> event list" where
  "handleErrorSubmit st =
     (if selectedError st = [] then
        (st, [Toast \<lparr>title = ''No error selected'', description = ''Please select an error type'',
                     variant = Destructive\<rparr>], [])
      else (st\<lparr>selectedError := []\<rparr>, sendErrorData (selectedError st), []))"

section \<open>The 3D panel\<close>

text \<open>
  The second component of the file ("3D Control Panel"). It has no vehicle and no
  weight form, its senders are mock calls that await nothing, and its ceiling is 100.
\<close>

definition initial_3D :: panel where
  "initial_3D =
     \<lparr>axisValues = [(''x'', Fin 50 0), (''y'', Fin 50 0), (''z'', Fin 50 0)],
      selectedError = [], selectedAxis = [], manualValue = []\<rparr>"

definition sendAxisData_3D :: "AxisValues \<Rightarrow> string \<Rightarrow> event list" where
  "sendAxisData_3D data source =
     [ConsoleLog ''Sending axis data:'',
      Toast \<lparr>title = ''Data sent successfully'',
             description = ''X: '' @ property data ''x'' @ '', Y: '' @ property data ''y'' @ '', Z: ''
               @ property data ''z'' @ '' (via '' @ source @ '')'',
             variant = Default\<rparr>]"

definition sendErrorData_3D :: "string \<Rightarrow> event list" where
  "sendErrorData_3D errorType =
     [ConsoleLog ''Sending error data:'',
      Toast \<lparr>title = ''Error reported'', description = ''Error type: '' @ errorType,
             variant = Default\<rparr>]"

definition handleSliderChange_3D :: "panel \<Rightarrow> string \<Rightarrow> number list \<Rightarrow> (panel \<times> event list) option" where
  "handleSliderChange_3D st axis value =
     (case value of
        [] \<Rightarrow> None
      | value0 # _ \<Rightarrow>
          let newValues = AList.update axis value0 (axisValues st)
          in Some (st\<lparr>axisValues := newValues\<rparr>, sendAxisData_3D newValues ''slider''))"

definition handleManualSubmit_3D :: "panel \<Rightarrow> panel \<times> event list" where
  "handleManualSubmit_3D st =
     (if selectedAxis st = [] \<or> manualValue st = [] then
        (st, [Toast \<lparr>title = ''Invalid input'',
                     description = ''Please select an axis and enter a value'',
                     variant = Destructive\<rparr>])
      else
        let value = parseFloat (manualValue st) in
        if isNaN value \<or> js_less value (Fin 0 0) \<or> js_greater value (Fin 100 0) then
          (st, [Toast \<lparr>title = ''Invalid value'',
                       description = ''Please enter a value between 0 and 100'',
                       variant = Destructive\<rparr>])
        else
          let newValues = AList.update (selectedAxis st) value (axisValues st)
          in (st\<lparr>axisValues := newValues, manualValue := [], selectedAxis := []\<rparr>,
              sendAxisData_3D newValues ''manual''))"

definition handleErrorSubmit_3D :: "panel \<Rightarrow> panel \<times> event list" where
  "handleErrorSubmit_3D st =
     (if selectedError st = [] then
        (st, [Toast \<lparr>title = ''No error selected'', description = ''Please select an error type'',
                     variant = Destructive\<rparr>])
      else (st\<lparr>selectedError := []\<rparr>, sendErrorData_3D (selectedError st)))"

section \<open>What the guards let through\<close>

text \<open>
  The conditions of the specification on a parsed number, in terms of the rational
  of its shortest decimal: a finite number between 0 and the ceiling, and a number
  above 0. A double lies between 0 and 100, or 1000000, or above 0, exactly when its
  shortest decimal does.
\<close>

definition in_range :: "int \<Rightarrow> number \<Rightarrow> bool" where
  "in_range hi v =
     (case v of Fin m e \<Rightarrow> 0 \<le> mag m e \<and> mag m e \<le> of_int hi | _ \<Rightarrow> False)"

definition positive :: "number \<Rightarrow> bool" where
  "positive v = (case v of Fin m e \<Rightarrow> 0 < mag m e | Infinity \<Rightarrow> True | _ \<Rightarrow> False)"

text \<open>The inputs the guards of each handler let through.\<close>

definition valid_manual :: "int \<Rightarrow> 'a panel_scheme \<Rightarrow> bool" where
  "valid_manual hi st =
     (selectedAxis st \<noteq> [] \<and> manualValue st \<noteq> [] \<and> in_range hi (parseFloat (manualValue st)))"

definition valid_vehicle :: "crane \<Rightarrow> bool" where
  "valid_vehicle st =
     (vehicleCode st \<noteq> [] \<and> vehicleKey st \<noteq> [] \<and> in_range 1000000 (parseInt (vehicleCode st)))"

definition valid_weight :: "crane \<Rightarrow> bool" where
  "valid_weight st = (weight st \<noteq> [] \<and> positive (parseFloat (weight st)))"


text \<open>The rejections a handler raises: its destructive toasts.\<close>

definition rejections :: "event list \<Rightarrow> toast list" where
  "rejections tr = filter (\<lambda>t. variant t = Destructive) (notifications tr)"

text \<open>The number of characters after the decimal point of a printed path or number.\<close>

definition fractionDigits :: "string \<Rightarrow> nat" where
  "fractionDigits s = length (drop 1 (dropWhile (\<lambda>c. c \<noteq> CHR ''.'') s))"

section \<open>Comparisons and guards\<close>

lemma mag_shift:
  assumes "c \<le> e"
  shows "mag m e = of_int (m * 10 ^ nat (e - c)) * 10 powi c"
proof -
  have "(10::rat) powi e = 10 powi ((e - c) + c)" by simp
  also have "\<dots> = 10 powi (e - c) * 10 powi c"
    by (rule power_int_add) simp
  also have "(10::rat) powi (e - c) = 10 ^ nat (e - c)"
    using assms by (simp add: power_int_def)
  finally show ?thesis by (simp add: mag_def)
qed

text \<open>The integer comparison of \<open>js_less\<close> is the comparison of the rationals.\<close>

lemma js_less_Fin_mag: "js_less (Fin m e) (Fin n f) = (mag m e < mag n f)"
proof -
  define c where "c = min e f"
  have p: "(0::rat) < 10 powi c" by simp
  have "mag m e = of_int (m * 10 ^ nat (e - c)) * 10 powi c"
    by (rule mag_shift) (simp add: c_def)
  moreover have "mag n f = of_int (n * 10 ^ nat (f - c)) * 10 powi c"
    by (rule mag_shift) (simp add: c_def)
  ultimately have "(mag m e < mag n f) = (m * 10 ^ nat (e - c) < n * 10 ^ nat (f - c))"
    using p by (simp only: mult_less_cancel_right_pos of_int_less_iff)
  then show ?thesis by (simp add: c_def)
qed

lemma mag_zero [simp]: "mag 0 e = 0"
  by (simp add: mag_def)

lemma mag_exp_zero [simp]: "mag m 0 = of_int m"
  by (simp add: mag_def)

lemma range_guard:
  "(isNaN v \<or> js_less v (Fin 0 0) \<or> js_greater v (Fin hi 0)) = (\<not> in_range hi v)"
proof (cases v)
  case (Fin m e)
  then show ?thesis
    by (auto simp add: isNaN_def js_greater_def in_range_def js_less_Fin_mag
        simp del: js_less.simps)
qed (simp_all add: isNaN_def js_greater_def in_range_def)

lemma weight_guard: "(isNaN v \<or> js_less_eq v (Fin 0 0)) = (\<not> positive v)"
proof (cases v)
  case (Fin m e)
  then show ?thesis
    by (auto simp add: isNaN_def js_less_eq_def positive_def js_less_Fin_mag
        simp del: js_less.simps)
qed (simp_all add: isNaN_def js_less_eq_def positive_def)

section \<open>The handlers, case by case\<close>

lemma sendIndividualAxisData_now:
  "fst (sendIndividualAxisData axis v r) =
     [ConsoleLog ''Sending individual axis data:'',
      Post (''/'' @ toUpperCase axis @ ''/'' @ toString v) NoBody]"
  by (simp add: sendIndividualAxisData_def)

lemma sendWeightData_now:
  "fst (sendWeightData w r) = [ConsoleLog ''Sending weight data:'', Post ''/weight'' (WeightBody w)]"
  by (simp add: sendWeightData_def)

lemma sendVehicleCode_now:
  "fst (sendVehicleCode (c, k) s r) = [Post (''/vehicle/'' @ c @ ''/'' @ k) NoBody]"
  by (simp add: sendVehicleCode_def)

lemma handleManualSubmit_valid:
  assumes "valid_manual 1000000 st"
  shows "handleManualSubmit st r =
     (st\<lparr>axisValues := AList.update (selectedAxis st) (parseFloat (manualValue st)) (axisValues st),
         manualValue := [], selectedAxis := []\<rparr>,
      fst (sendIndividualAxisData (selectedAxis st) (parseFloat (manualValue st)) r),
      snd (sendIndividualAxisData (selectedAxis st) (parseFloat (manualValue st)) r))"
  using assms by (simp add: handleManualSubmit_def valid_manual_def range_guard Let_def)

lemma handleManualSubmit_missing:
  assumes "selectedAxis st = [] \<or> manualValue st = []"
  shows "handleManualSubmit st r =
     (st, [Toast \<lparr>title = ''Invalid input'',
                  description = ''Please select an axis and enter a value'',
                  variant = Destructive\<rparr>], [])"
  using assms by (auto simp add: handleManualSubmit_def)

lemma handleManualSubmit_range:
  assumes "selectedAxis st \<noteq> []" and "manualValue st \<noteq> []"
    and "\<not> in_range 1000000 (parseFloat (manualValue st))"
  shows "handleManualSubmit st r =
     (st, [Toast \<lparr>title = ''Invalid value'',
                  description = ''Please enter a value between 0 and 1000000'',
                  variant = Destructive\<rparr>], [])"
  using assms by (simp add: handleManualSubmit_def range_guard Let_def)

lemma handleManualSubmit_3D_valid:
  assumes "valid_manual 100 st"
  shows "handleManualSubmit_3D st =
     (st\<lparr>axisValues := AList.update (selectedAxis st) (parseFloat (manualValue st)) (axisValues st),
         manualValue := [], selectedAxis := []\<rparr>,
      sendAxisData_3D
        (AList.update (selectedAxis st) (parseFloat (manualValue st)) (axisValues st)) ''manual'')"
  using assms by (simp add: handleManualSubmit_3D_def valid_manual_def range_guard Let_def)

lemma handleManualSubmit_3D_missing:
  assumes "selectedAxis st = [] \<or> manualValue st = []"
  shows "handleManualSubmit_3D st =
     (st, [Toast \<lparr>title = ''Invalid input'',
                  description = ''Please select an axis and enter a value'',
                  variant = Destructive\<rparr>])"
  using assms by (auto simp add: handleManualSubmit_3D_def)

lemma handleManualSubmit_3D_range:
  assumes "selectedAxis st \<noteq> []" and "manualValue st \<noteq> []"
    and "\<not> in_range 100 (parseFloat (manualValue st))"
  shows "handleManualSubmit_3D st =
     (st, [Toast \<lparr>title = ''Invalid value'',
                  description = ''Please enter a value between 0 and 100'',
                  variant = Destructive\<rparr>])"
  using assms by (simp add: handleManualSubmit_3D_def range_guard Let_def)

lemma handleWeightSubmit_valid:
  assumes "valid_weight st"
  shows "handleWeightSubmit st r =
     (st\<lparr>weight := []\<rparr>, fst (sendWeightData (parseFloat (weight st)) r),
      snd (sendWeightData (parseFloat (weight st)) r))"
  using assms by (simp add: handleWeightSubmit_def valid_weight_def weight_guard Let_def)

lemma handleWeightSubmit_missing:
  assumes "weight st = []"
  shows "handleWeightSubmit st r =
     (st, [Toast \<lparr>title = ''Invalid input'', description = ''Please enter a weight value'',
                  variant = Destructive\<rparr>], [])"
  using assms by (simp add: handleWeightSubmit_def)

lemma handleWeightSubmit_invalid:
  assumes "weight st \<noteq> []" and "\<not> positive (parseFloat (weight st))"
  shows "handleWeightSubmit st r =
     (st, [Toast \<lparr>title = ''Invalid weight'', description = ''Please enter a valid weight value'',
                  variant = Destructive\<rparr>], [])"
  using assms by (simp add: handleWeightSubmit_def weight_guard Let_def)

lemma handleVehicleCodeFetch_valid:
  assumes "valid_vehicle st"
  shows "handleVehicleCodeFetch st r =
     (st, fst (sendVehicleCode (vehicleCode st, vehicleKey st) ''empty'' r),
      snd (sendVehicleCode (vehicleCode st, vehicleKey st) ''empty'' r))"
  using assms by (simp add: handleVehicleCodeFetch_def valid_vehicle_def range_guard Let_def)


lemma handleErrorSubmit_valid:
  assumes "selectedError st \<noteq> []"
  shows "handleErrorSubmit st =
     (st\<lparr>selectedError := []\<rparr>,
      [ConsoleLog ''Sending error data:'',
       Toast \<lparr>title = ''Error reported'', description = ''Error type: '' @ selectedError st,
              variant = Default\<rparr>], [])"
  using assms by (simp add: handleErrorSubmit_def sendErrorData_def)

lemma handleErrorSubmit_missing:
  assumes "selectedError st = []"
  shows "handleErrorSubmit st =
     (st, [Toast \<lparr>title = ''No error selected'', description = ''Please select an error type'',
                  variant = Destructive\<rparr>], [])"
  using assms by (simp add: handleErrorSubmit_def)

lemma handleErrorSubmit_3D_valid:
  assumes "selectedError st \<noteq> []"
  shows "handleErrorSubmit_3D st =
     (st\<lparr>selectedError := []\<rparr>,
      [ConsoleLog ''Sending error data:'',
       Toast \<lparr>title = ''Error reported'', description = ''Error type: '' @ selectedError st,
              variant = Default\<rparr>])"
  using assms by (simp add: handleErrorSubmit_3D_def sendErrorData_3D_def)

lemma handleErrorSubmit_3D_missing:
  assumes "selectedError st = []"
  shows "handleErrorSubmit_3D st =
     (st, [Toast \<lparr>title = ''No error selected'', description = ''Please select an error type'',
                  variant = Destructive\<rparr>])"
  using assms by (simp add: handleErrorSubmit_3D_def)

section \<open>Validation\<close>

text \<open>
  C1. Manual entry of an axis value, once an axis is selected and the value field is
  not empty: the input, parsed as a number \<open>v\<close>, is accepted if and only if
  \<open>0 \<le> v \<le> MAX\<close>, where \<open>MAX\<close> is 1000000 in the crane panel and 100 in the 3D panel.
  An accepted value is stored for its axis, the form is cleared and the value is
  dispatched (posted by the crane panel, logged and notified by the 3D panel); any
  other input, a \<open>NaN\<close> included, is rejected with the toast "Invalid value" that names
  the range, and nothing else happens.
\<close>

theorem manual_entry_accepted_iff_in_range:
  assumes "selectedAxis st \<noteq> []" and "manualValue st \<noteq> []"
    and "selectedAxis p \<noteq> []" and "manualValue p \<noteq> []"
  shows
    "(in_range 1000000 (parseFloat (manualValue st)) \<longrightarrow>
        handleManualSubmit st r =
          (st\<lparr>axisValues :=
                AList.update (selectedAxis st) (parseFloat (manualValue st)) (axisValues st),
              manualValue := [], selectedAxis := []\<rparr>,
           [ConsoleLog ''Sending individual axis data:'',
            Post (''/'' @ toUpperCase (selectedAxis st) @ ''/''
                  @ toString (parseFloat (manualValue st))) NoBody],
           (case r of
              Fulfilled \<Rightarrow>
                [Toast \<lparr>title = ''Data sent successfully'',
                        description = toUpperCase (selectedAxis st) @ '': ''
                          @ toString (parseFloat (manualValue st)),
                        variant = Default\<rparr>]
            | Rejected \<Rightarrow>
                [ConsoleError ''Error sending individual axis data:'',
                 Toast \<lparr>title = ''Error sending data'',
                        description = ''Failed to send '' @ selectedAxis st @ '' axis value'',
                        variant = Destructive\<rparr>])))
     \<and> (\<not> in_range 1000000 (parseFloat (manualValue st)) \<longrightarrow>
          handleManualSubmit st r =
            (st, [Toast \<lparr>title = ''Invalid value'',
                         description = ''Please enter a value between 0 and 1000000'',
                         variant = Destructive\<rparr>], []))
     \<and> ((rejections (fst (snd (handleManualSubmit st r))) = [])
          = in_range 1000000 (parseFloat (manualValue st)))
     \<and> (in_range 100 (parseFloat (manualValue p)) \<longrightarrow>
          handleManualSubmit_3D p =
            (p\<lparr>axisValues :=
                  AList.update (selectedAxis p) (parseFloat (manualValue p)) (axisValues p),
                manualValue := [], selectedAxis := []\<rparr>,
             [ConsoleLog ''Sending axis data:'',
              Toast \<lparr>title = ''Data sent successfully'',
                     description =
                       ''X: '' @ property (AList.update (selectedAxis p)
                                  (parseFloat (manualValue p)) (axisValues p)) ''x''
                       @ '', Y: '' @ property (AList.update (selectedAxis p)
                                  (parseFloat (manualValue p)) (axisValues p)) ''y''
                       @ '', Z: '' @ property (AList.update (selectedAxis p)
                                  (parseFloat (manualValue p)) (axisValues p)) ''z''
                       @ '' (via manual)'',
                     variant = Default\<rparr>]))
     \<and> (\<not> in_range 100 (parseFloat (manualValue p)) \<longrightarrow>
          handleManualSubmit_3D p =
            (p, [Toast \<lparr>title = ''Invalid value'',
                        description = ''Please enter a value between 0 and 100'',
                        variant = Destructive\<rparr>]))
     \<and> ((rejections (snd (handleManualSubmit_3D p)) = [])
          = in_range 100 (parseFloat (manualValue p)))
     \<and> \<not> in_range 1000000 NaN \<and> \<not> in_range 100 NaN"
proof -
  let ?v = "parseFloat (manualValue st)" and ?w = "parseFloat (manualValue p)"
  have ok: "handleManualSubmit st r =
      (st\<lparr>axisValues := AList.update (selectedAxis st) ?v (axisValues st),
          manualValue := [], selectedAxis := []\<rparr>,
       [ConsoleLog ''Sending individual axis data:'',
        Post (''/'' @ toUpperCase (selectedAxis st) @ ''/'' @ toString ?v) NoBody],
       (case r of
          Fulfilled \<Rightarrow>
            [Toast \<lparr>title = ''Data sent successfully'',
                    description = toUpperCase (selectedAxis st) @ '': '' @ toString ?v,
                    variant = Default\<rparr>]
        | Rejected \<Rightarrow>
            [ConsoleError ''Error sending individual axis data:'',
             Toast \<lparr>title = ''Error sending data'',
                    description = ''Failed to send '' @ selectedAxis st @ '' axis value'',
                    variant = Destructive\<rparr>]))" if "in_range 1000000 ?v"
  proof -
    from that assms(1,2) have "valid_manual 1000000 st" by (simp add: valid_manual_def)
    from handleManualSubmit_valid [OF this, of r] show ?thesis
      by (simp add: sendIndividualAxisData_def)
  qed
  have no: "handleManualSubmit st r =
      (st, [Toast \<lparr>title = ''Invalid value'',
                   description = ''Please enter a value between 0 and 1000000'',
                   variant = Destructive\<rparr>], [])" if "\<not> in_range 1000000 ?v"
    using that assms(1,2) by (intro handleManualSubmit_range)
  have ok3: "handleManualSubmit_3D p =
      (p\<lparr>axisValues := AList.update (selectedAxis p) ?w (axisValues p),
          manualValue := [], selectedAxis := []\<rparr>,
       [ConsoleLog ''Sending axis data:'',
        Toast \<lparr>title = ''Data sent successfully'',
               description =
                 ''X: '' @ property (AList.update (selectedAxis p) ?w (axisValues p)) ''x''
                 @ '', Y: '' @ property (AList.update (selectedAxis p) ?w (axisValues p)) ''y''
                 @ '', Z: '' @ property (AList.update (selectedAxis p) ?w (axisValues p)) ''z''
                 @ '' (via manual)'',
               variant = Default\<rparr>])" if "in_range 100 ?w"
  proof -
    from that assms(3,4) have "valid_manual 100 p" by (simp add: valid_manual_def)
    from handleManualSubmit_3D_valid [OF this] show ?thesis
      by (simp add: sendAxisData_3D_def)
  qed
  have no3: "handleManualSubmit_3D p =
      (p, [Toast \<lparr>title = ''Invalid value'',
                  description = ''Please enter a value between 0 and 100'',
                  variant = Destructive\<rparr>])" if "\<not> in_range 100 ?w"
    using that assms(3,4) by (intro handleManualSubmit_3D_range)
  have a: "(rejections (fst (snd (handleManualSubmit st r))) = []) = in_range 1000000 ?v"
    using ok no by (cases "in_range 1000000 ?v") (simp_all add: rejections_def)
  have b: "(rejections (snd (handleManualSubmit_3D p)) = []) = in_range 100 ?w"
    using ok3 no3 by (cases "in_range 100 ?w") (simp_all add: rejections_def)
  have n: "\<not> in_range 1000000 NaN \<and> \<not> in_range 100 NaN"
    by (simp add: in_range_def)
  from ok no a ok3 no3 b n show ?thesis by blast
qed

theorem manual_entry_accepted_iff_in_range_witness:
  "handleManualSubmit (initial_crane\<lparr>selectedAxis := ''x'', manualValue := ''500000''\<rparr>) Fulfilled
     = (initial_crane\<lparr>axisValues := [(''x'', Fin 5 5), (''y'', Fin 0 0), (''z'', Fin 0 0)]\<rparr>,
        [ConsoleLog ''Sending individual axis data:'', Post ''/X/500000'' NoBody],
        [Toast \<lparr>title = ''Data sent successfully'', description = ''X: 500000'',
                variant = Default\<rparr>])
   \<and> handleManualSubmit (initial_crane\<lparr>selectedAxis := ''x'', manualValue := ''2000000''\<rparr>) Fulfilled
     = (initial_crane\<lparr>selectedAxis := ''x'', manualValue := ''2000000''\<rparr>,
        [Toast \<lparr>title = ''Invalid value'',
                description = ''Please enter a value between 0 and 1000000'',
                variant = Destructive\<rparr>], [])
   \<and> handleManualSubmit
        (initial_crane\<lparr>selectedAxis := ''x'', manualValue := ''1000000.00000000001''\<rparr>) Fulfilled
     = (initial_crane\<lparr>axisValues := [(''x'', Fin 1 6), (''y'', Fin 0 0), (''z'', Fin 0 0)]\<rparr>,
        [ConsoleLog ''Sending individual axis data:'', Post ''/X/1000000'' NoBody],
        [Toast \<lparr>title = ''Data sent successfully'', description = ''X: 1000000'',
                variant = Default\<rparr>])
   \<and> handleManualSubmit (initial_crane\<lparr>selectedAxis := ''z'', manualValue := ''abc''\<rparr>) Fulfilled
     = (initial_crane\<lparr>selectedAxis := ''z'', manualValue := ''abc''\<rparr>,
        [Toast \<lparr>title = ''Invalid value'',
                description = ''Please enter a value between 0 and 1000000'',
                variant = Destructive\<rparr>], [])
   \<and> handleManualSubmit_3D (initial_3D\<lparr>selectedAxis := ''y'', manualValue := ''100.5''\<rparr>)
     = (initial_3D\<lparr>selectedAxis := ''y'', manualValue := ''100.5''\<rparr>,
        [Toast \<lparr>title = ''Invalid value'',
                description = ''Please enter a value between 0 and 100'',
                variant = Destructive\<rparr>])
   \<and> handleManualSubmit_3D (initial_3D\<lparr>selectedAxis := ''y'', manualValue := ''12.5''\<rparr>)
     = (initial_3D\<lparr>axisValues := [(''x'', Fin 50 0), (''y'', Fin 125 (- 1)), (''z'', Fin 50 0)]\<rparr>,
        [ConsoleLog ''Sending axis data:'',
         Toast \<lparr>title = ''Data sent successfully'',
                description = ''X: 50, Y: 12.5, Z: 50 (via manual)'', variant = Default\<rparr>])
   \<and> handleManualSubmit_3D (initial_3D\<lparr>selectedAxis := ''z'', manualValue := ''abc''\<rparr>)
     = (initial_3D\<lparr>selectedAxis := ''z'', manualValue := ''abc''\<rparr>,
        [Toast \<lparr>title = ''Invalid value'',
                description = ''Please enter a value between 0 and 100'',
                variant = Destructive\<rparr>])"
proof -
  have p: "parseFloat ''500000'' = Fin 5 5" "parseFloat ''2000000'' = Fin 2 6"
    "parseFloat ''1000000.00000000001'' = Fin 1 6" "parseFloat ''abc'' = NaN"
    "parseFloat ''100.5'' = Fin 1005 (- 1)" "parseFloat ''12.5'' = Fin 125 (- 1)"
    by code_simp+
  have t: "toString (Fin 5 5) = ''500000''" "toString (Fin 1 6) = ''1000000''"
    "toString (Fin 50 0) = ''50''" "toString (Fin 125 (- 1)) = ''12.5''"
    by code_simp+
  have u: "toUpperCase ''x'' = ''X''" by code_simp
  have r: "in_range 1000000 (Fin 5 5)" "\<not> in_range 1000000 (Fin 2 6)"
    "in_range 1000000 (Fin 1 6)" "\<not> in_range 1000000 NaN" "\<not> in_range 100 NaN"
    "\<not> in_range 100 (Fin 1005 (- 1))" "in_range 100 (Fin 125 (- 1))"
    by (simp_all add: in_range_def mag_def)
  show ?thesis
    using
      manual_entry_accepted_iff_in_range
        [of "initial_crane\<lparr>selectedAxis := ''x'', manualValue := ''500000''\<rparr>"
            "initial_3D\<lparr>selectedAxis := ''y'', manualValue := ''100.5''\<rparr>" Fulfilled]
      manual_entry_accepted_iff_in_range
        [of "initial_crane\<lparr>selectedAxis := ''x'', manualValue := ''2000000''\<rparr>"
            "initial_3D\<lparr>selectedAxis := ''y'', manualValue := ''12.5''\<rparr>" Fulfilled]
      manual_entry_accepted_iff_in_range
        [of "initial_crane\<lparr>selectedAxis := ''x'', manualValue := ''1000000.00000000001''\<rparr>"
            "initial_3D\<lparr>selectedAxis := ''z'', manualValue := ''abc''\<rparr>" Fulfilled]
      manual_entry_accepted_iff_in_range
        [of "initial_crane\<lparr>selectedAxis := ''z'', manualValue := ''abc''\<rparr>"
            "initial_3D\<lparr>selectedAxis := ''z'', manualValue := ''abc''\<rparr>" Fulfilled]
    by (simp add: p t u r initial_crane_def initial_3D_def sendIndividualAxisData_def
        property_def)
qed

text \<open>
  C4. A weight input is accepted if and only if it is not empty and parses to a number
  above 0. An empty input is rejected with the toast "Invalid input" (missing weight);
  an input that parses to \<open>NaN\<close>, to 0 or to a negative number is rejected with the
  toast "Invalid weight"; an accepted weight is posted to \<open>/weight\<close> and the field is
  cleared.
\<close>

theorem weight_accepted_iff_positive:
  "(weight st = [] \<longrightarrow>
      handleWeightSubmit st r =
        (st, [Toast \<lparr>title = ''Invalid input'', description = ''Please enter a weight value'',
                     variant = Destructive\<rparr>], []))
   \<and> (weight st \<noteq> [] \<and> positive (parseFloat (weight st)) \<longrightarrow>
        handleWeightSubmit st r =
          (st\<lparr>weight := []\<rparr>,
           [ConsoleLog ''Sending weight data:'',
            Post ''/weight'' (WeightBody (parseFloat (weight st)))],
           (case r of
              Fulfilled \<Rightarrow>
                [Toast \<lparr>title = ''Weight data sent'',
                        description = ''Weight: '' @ toString (parseFloat (weight st)),
                        variant = Default\<rparr>]
            | Rejected \<Rightarrow>
                [ConsoleError ''Error sending weight data:'',
                 Toast \<lparr>title = ''Error sending weight'',
                        description = ''Failed to send weight data'',
                        variant = Destructive\<rparr>])))
   \<and> (weight st \<noteq> [] \<and> \<not> positive (parseFloat (weight st)) \<longrightarrow>
        handleWeightSubmit st r =
          (st, [Toast \<lparr>title = ''Invalid weight'',
                       description = ''Please enter a valid weight value'',
                       variant = Destructive\<rparr>], []))
   \<and> (weight st \<noteq> [] \<longrightarrow>
        (rejections (fst (snd (handleWeightSubmit st r))) = [])
          = positive (parseFloat (weight st)))
   \<and> \<not> positive NaN \<and> \<not> positive (Fin 0 e) \<and> (m < 0 \<longrightarrow> \<not> positive (Fin m e))"
proof -
  let ?w = "parseFloat (weight st)"
  have ok: "handleWeightSubmit st r =
      (st\<lparr>weight := []\<rparr>,
       [ConsoleLog ''Sending weight data:'', Post ''/weight'' (WeightBody ?w)],
       (case r of
          Fulfilled \<Rightarrow>
            [Toast \<lparr>title = ''Weight data sent'', description = ''Weight: '' @ toString ?w,
                    variant = Default\<rparr>]
        | Rejected \<Rightarrow>
            [ConsoleError ''Error sending weight data:'',
             Toast \<lparr>title = ''Error sending weight'', description = ''Failed to send weight data'',
                    variant = Destructive\<rparr>]))"
    if "weight st \<noteq> []" and "positive ?w"
  proof -
    from that have "valid_weight st" by (simp add: valid_weight_def)
    from handleWeightSubmit_valid [OF this, of r] show ?thesis
      by (simp add: sendWeightData_def)
  qed
  have no: "handleWeightSubmit st r =
      (st, [Toast \<lparr>title = ''Invalid weight'', description = ''Please enter a valid weight value'',
                   variant = Destructive\<rparr>], [])"
    if "weight st \<noteq> []" and "\<not> positive ?w"
    using that by (intro handleWeightSubmit_invalid)
  have a: "weight st \<noteq> [] \<longrightarrow>
      (rejections (fst (snd (handleWeightSubmit st r))) = []) = positive ?w"
    using ok no by (cases "positive ?w") (simp_all add: rejections_def)
  have neg: "m < 0 \<longrightarrow> \<not> positive (Fin m e)"
  proof
    assume "m < 0"
    then have "of_int m * (10::rat) powi e < 0"
      by (intro mult_neg_pos) simp_all
    then show "\<not> positive (Fin m e)" by (simp add: positive_def mag_def)
  qed
  have z: "\<not> positive NaN \<and> \<not> positive (Fin 0 e)" by (simp add: positive_def)
  from a ok no neg z handleWeightSubmit_missing [of st r] show ?thesis by blast
qed

theorem weight_accepted_iff_positive_witness:
  "handleWeightSubmit (initial_crane\<lparr>weight := ''-5''\<rparr>) Fulfilled
     = (initial_crane\<lparr>weight := ''-5''\<rparr>,
        [Toast \<lparr>title = ''Invalid weight'', description = ''Please enter a valid weight value'',
                variant = Destructive\<rparr>], [])
   \<and> handleWeightSubmit (initial_crane\<lparr>weight := ''1e-400''\<rparr>) Fulfilled
     = (initial_crane\<lparr>weight := ''1e-400''\<rparr>,
        [Toast \<lparr>title = ''Invalid weight'', description = ''Please enter a valid weight value'',
                variant = Destructive\<rparr>], [])
   \<and> handleWeightSubmit initial_crane Fulfilled
     = (initial_crane,
        [Toast \<lparr>title = ''Invalid input'', description = ''Please enter a weight value'',
                variant = Destructive\<rparr>], [])
   \<and> handleWeightSubmit (initial_crane\<lparr>weight := ''12.5''\<rparr>) Fulfilled
     = (initial_crane,
        [ConsoleLog ''Sending weight data:'', Post ''/weight'' (WeightBody (Fin 125 (- 1)))],
        [Toast \<lparr>title = ''Weight data sent'', description = ''Weight: 12.5'',
                variant = Default\<rparr>])
   \<and> handleWeightSubmit (initial_crane\<lparr>weight := ''1e400''\<rparr>) Fulfilled
     = (initial_crane,
        [ConsoleLog ''Sending weight data:'', Post ''/weight'' (WeightBody Infinity)],
        [Toast \<lparr>title = ''Weight data sent'', description = ''Weight: Infinity'',
                variant = Default\<rparr>])"
proof -
  have p: "parseFloat ''-5'' = Fin (- 5) 0" "parseFloat ''12.5'' = Fin 125 (- 1)"
    "parseFloat ''1e-400'' = Fin 0 0" "parseFloat ''1e400'' = Infinity"
    by code_simp+
  have t: "toString (Fin 125 (- 1)) = ''12.5''" "toString Infinity = ''Infinity''"
    by code_simp+
  have r: "\<not> positive (Fin (- 5) 0)" "positive (Fin 125 (- 1))" "\<not> positive (Fin 0 0)"
    "positive Infinity"
    by (simp_all add: positive_def mag_def)
  show ?thesis
    using
      weight_accepted_iff_positive [of "initial_crane\<lparr>weight := ''-5''\<rparr>" Fulfilled 0 "- 5"]
      weight_accepted_iff_positive [of "initial_crane\<lparr>weight := ''1e-400''\<rparr>" Fulfilled 0 "- 5"]
      weight_accepted_iff_positive [of initial_crane Fulfilled 0 "- 5"]
      weight_accepted_iff_positive [of "initial_crane\<lparr>weight := ''12.5''\<rparr>" Fulfilled 0 "- 5"]
      weight_accepted_iff_positive [of "initial_crane\<lparr>weight := ''1e400''\<rparr>" Fulfilled 0 "- 5"]
    by (simp add: p t r initial_crane_def sendWeightData_def)
qed



text \<open>
  C3. The vehicle form means to accept a code that is an integer between 0 and
  1000000, and checks the number \<^verbatim>\<open>parseInt\<close> reads. \<^verbatim>\<open>parseInt\<close> stops at the first
  character that is not a digit, and the handler then sends the text of the field,
  not the number it checked. The code \<open>1e7\<close> (ten million) is checked as 1, the code
  \<open>12.5\<close> as 12: both are accepted and posted as they were typed.
\<close>

theorem vehicle_code_checked_by_prefix:
  "parseInt ''1e7'' = Fin 1 0 \<and> parseFloat ''1e7'' = Fin 1 7
   \<and> handleVehicleCodeFetch (initial_crane\<lparr>vehicleCode := ''1e7'', vehicleKey := ''k''\<rparr>) Fulfilled
     = (initial_crane\<lparr>vehicleCode := ''1e7'', vehicleKey := ''k''\<rparr>,
        [Post ''/vehicle/1e7/k'' NoBody],
        [Toast \<lparr>title = ''Data sent successfully'', description = ''Vehicle connected: 1e7'',
                variant = Default\<rparr>])
   \<and> parseInt ''12.5'' = Fin 12 0
   \<and> handleVehicleCodeFetch (initial_crane\<lparr>vehicleCode := ''12.5'', vehicleKey := ''k''\<rparr>) Fulfilled
     = (initial_crane\<lparr>vehicleCode := ''12.5'', vehicleKey := ''k''\<rparr>,
        [Post ''/vehicle/12.5/k'' NoBody],
        [Toast \<lparr>title = ''Data sent successfully'', description = ''Vehicle connected: 12.5'',
                variant = Default\<rparr>])"
proof -
  have p1: "parseInt ''1e7'' = Fin 1 0" and p2: "parseFloat ''1e7'' = Fin 1 7"
    and p3: "parseInt ''12.5'' = Fin 12 0"
    by code_simp+
  have v1: "valid_vehicle (initial_crane\<lparr>vehicleCode := ''1e7'', vehicleKey := ''k''\<rparr>)"
    and v2: "valid_vehicle (initial_crane\<lparr>vehicleCode := ''12.5'', vehicleKey := ''k''\<rparr>)"
    by (simp_all add: valid_vehicle_def p1 p3 in_range_def)
  show ?thesis
    using handleVehicleCodeFetch_valid [OF v1, of Fulfilled]
      handleVehicleCodeFetch_valid [OF v2, of Fulfilled]
    by (simp add: p1 p2 p3 sendVehicleCode_def)
qed

text \<open>
  C8, as the specification states it, gives the manual entry two distinct rejection
  reasons, one for a missing axis selection and one for a missing value. Both panels
  have one guard and one toast for the two: a submission without an axis and a
  submission without a value raise the same toast.
\<close>

theorem missing_axis_and_missing_value_same_toast:
  "notifications (fst (snd (handleManualSubmit (initial_crane\<lparr>manualValue := ''5''\<rparr>) Fulfilled)))
     = [\<lparr>title = ''Invalid input'', description = ''Please select an axis and enter a value'',
         variant = Destructive\<rparr>]
   \<and> notifications (fst (snd (handleManualSubmit (initial_crane\<lparr>selectedAxis := ''x''\<rparr>) Fulfilled)))
     = [\<lparr>title = ''Invalid input'', description = ''Please select an axis and enter a value'',
         variant = Destructive\<rparr>]"
  by (simp add: handleManualSubmit_def initial_crane_def)

text \<open>
  C8, amended. A manual entry with no axis selected or with an empty value field is
  rejected with one combined reason, the toast "Invalid input: Please select an axis
  and enter a value", whichever of the two is missing; nothing else happens.
\<close>

theorem manual_entry_missing_field_one_reason:
  "(selectedAxis st = [] \<or> manualValue st = [] \<longrightarrow>
      handleManualSubmit st r =
        (st, [Toast \<lparr>title = ''Invalid input'',
                     description = ''Please select an axis and enter a value'',
                     variant = Destructive\<rparr>], []))
   \<and> (selectedAxis p = [] \<or> manualValue p = [] \<longrightarrow>
      handleManualSubmit_3D p =
        (p, [Toast \<lparr>title = ''Invalid input'',
                    description = ''Please select an axis and enter a value'',
                    variant = Destructive\<rparr>]))"
  using handleManualSubmit_missing [of st r] handleManualSubmit_3D_missing [of p] by blast

theorem manual_entry_missing_field_one_reason_witness:
  "handleManualSubmit (initial_crane\<lparr>manualValue := ''5''\<rparr>) Rejected
     = (initial_crane\<lparr>manualValue := ''5''\<rparr>,
        [Toast \<lparr>title = ''Invalid input'',
                description = ''Please select an axis and enter a value'',
                variant = Destructive\<rparr>], [])
   \<and> handleManualSubmit_3D (initial_3D\<lparr>selectedAxis := ''x''\<rparr>)
     = (initial_3D\<lparr>selectedAxis := ''x''\<rparr>,
        [Toast \<lparr>title = ''Invalid input'',
                description = ''Please select an axis and enter a value'',
                variant = Destructive\<rparr>])"
  using manual_entry_missing_field_one_reason
    [of "initial_crane\<lparr>manualValue := ''5''\<rparr>" Rejected "initial_3D\<lparr>selectedAxis := ''x''\<rparr>"]
  by (simp add: initial_crane_def initial_3D_def)

text \<open>
  C7. The selection of the error form is empty or one of the five values the
  selection list offers: it is written only by that list and by the handler, which
  empties it. For every such selection the report is accepted if and only if the
  selection is a member of the enumeration \<open>calibration\<close>, \<open>positioning\<close>, \<open>sensor\<close>,
  \<open>communication\<close>, \<open>mechanical\<close>. On acceptance the notifier is called with the
  selected type, no request is sent and the selection is cleared; otherwise the
  report is rejected with the toast "No error selected" and nothing else happens.
\<close>

theorem error_report_accepted_iff_member:
  assumes "selectedError st = [] \<or> selectedError st \<in> set (map fst ERROR_TYPES)"
    and "selectedError p = [] \<or> selectedError p \<in> set (map fst ERROR_TYPES)"
  shows
    "(selectedError st \<in> set (map fst ERROR_TYPES) \<longrightarrow>
        handleErrorSubmit st =
          (st\<lparr>selectedError := []\<rparr>,
           [ConsoleLog ''Sending error data:'',
            Toast \<lparr>title = ''Error reported'', description = ''Error type: '' @ selectedError st,
                   variant = Default\<rparr>], []))
     \<and> (selectedError st \<notin> set (map fst ERROR_TYPES) \<longrightarrow>
        handleErrorSubmit st =
          (st, [Toast \<lparr>title = ''No error selected'', description = ''Please select an error type'',
                       variant = Destructive\<rparr>], []))
     \<and> ((rejections (fst (snd (handleErrorSubmit st))) = [])
          = (selectedError st \<in> set (map fst ERROR_TYPES)))
     \<and> requests (fst (snd (handleErrorSubmit st))) = []
     \<and> (selectedError p \<in> set (map fst ERROR_TYPES) \<longrightarrow>
        handleErrorSubmit_3D p =
          (p\<lparr>selectedError := []\<rparr>,
           [ConsoleLog ''Sending error data:'',
            Toast \<lparr>title = ''Error reported'', description = ''Error type: '' @ selectedError p,
                   variant = Default\<rparr>]))
     \<and> (selectedError p \<notin> set (map fst ERROR_TYPES) \<longrightarrow>
        handleErrorSubmit_3D p =
          (p, [Toast \<lparr>title = ''No error selected'', description = ''Please select an error type'',
                      variant = Destructive\<rparr>]))
     \<and> ((rejections (snd (handleErrorSubmit_3D p)) = [])
          = (selectedError p \<in> set (map fst ERROR_TYPES)))
     \<and> requests (snd (handleErrorSubmit_3D p)) = []
     \<and> map fst ERROR_TYPES
         = [''calibration'', ''positioning'', ''sensor'', ''communication'', ''mechanical'']"
proof -
  have names: "map fst ERROR_TYPES
      = [''calibration'', ''positioning'', ''sensor'', ''communication'', ''mechanical'']"
    by (simp add: ERROR_TYPES_def)
  have mem: "(s \<in> set (map fst ERROR_TYPES)) = (s \<noteq> [])"
    if "s = [] \<or> s \<in> set (map fst ERROR_TYPES)" for s
    using that by (auto simp add: names)
  have c: "(selectedError st \<in> set (map fst ERROR_TYPES)) = (selectedError st \<noteq> [])"
    and d: "(selectedError p \<in> set (map fst ERROR_TYPES)) = (selectedError p \<noteq> [])"
    using mem [OF assms(1)] mem [OF assms(2)] by simp_all
  have a: "(rejections (fst (snd (handleErrorSubmit st))) = []) = (selectedError st \<noteq> [])"
    and a': "requests (fst (snd (handleErrorSubmit st))) = []"
    by (simp_all add: handleErrorSubmit_def sendErrorData_def rejections_def)
  have b: "(rejections (snd (handleErrorSubmit_3D p)) = []) = (selectedError p \<noteq> [])"
    and b': "requests (snd (handleErrorSubmit_3D p)) = []"
    by (simp_all add: handleErrorSubmit_3D_def sendErrorData_3D_def rejections_def)
  from names a a' b b' show ?thesis
    using handleErrorSubmit_valid [of st] handleErrorSubmit_missing [of st]
      handleErrorSubmit_3D_valid [of p] handleErrorSubmit_3D_missing [of p]
    unfolding c d by blast
qed

theorem error_report_accepted_iff_member_witness:
  "handleErrorSubmit (initial_crane\<lparr>selectedError := ''sensor''\<rparr>)
     = (initial_crane\<lparr>selectedError := []\<rparr>,
        [ConsoleLog ''Sending error data:'',
         Toast \<lparr>title = ''Error reported'', description = ''Error type: sensor'',
                variant = Default\<rparr>], [])
   \<and> handleErrorSubmit initial_crane
     = (initial_crane,
        [Toast \<lparr>title = ''No error selected'', description = ''Please select an error type'',
                variant = Destructive\<rparr>], [])
   \<and> handleErrorSubmit_3D (initial_3D\<lparr>selectedError := ''mechanical''\<rparr>)
     = (initial_3D\<lparr>selectedError := []\<rparr>,
        [ConsoleLog ''Sending error data:'',
         Toast \<lparr>title = ''Error reported'', description = ''Error type: mechanical'',
                variant = Default\<rparr>])
   \<and> handleErrorSubmit_3D initial_3D
     = (initial_3D,
        [Toast \<lparr>title = ''No error selected'', description = ''Please select an error type'',
                variant = Destructive\<rparr>])"
proof -
  have m: "''sensor'' \<in> set (map fst ERROR_TYPES)" "''mechanical'' \<in> set (map fst ERROR_TYPES)"
    "[] \<notin> set (map fst ERROR_TYPES)"
    by (simp_all add: ERROR_TYPES_def)
  have h1: "selectedError (initial_crane\<lparr>selectedError := ''sensor''\<rparr>) = []
      \<or> selectedError (initial_crane\<lparr>selectedError := ''sensor''\<rparr>) \<in> set (map fst ERROR_TYPES)"
    and h2: "selectedError (initial_3D\<lparr>selectedError := ''mechanical''\<rparr>) = []
      \<or> selectedError (initial_3D\<lparr>selectedError := ''mechanical''\<rparr>) \<in> set (map fst ERROR_TYPES)"
    and h3: "selectedError initial_crane = [] \<or> selectedError initial_crane \<in> set (map fst ERROR_TYPES)"
    and h4: "selectedError initial_3D = [] \<or> selectedError initial_3D \<in> set (map fst ERROR_TYPES)"
    using m by (simp_all add: initial_crane_def initial_3D_def)
  have s1: "selectedError (initial_crane\<lparr>selectedError := ''sensor''\<rparr>) = ''sensor''"
    and s2: "selectedError (initial_3D\<lparr>selectedError := ''mechanical''\<rparr>) = ''mechanical''"
    and s3: "selectedError initial_crane = []" and s4: "selectedError initial_3D = []"
    by (simp_all add: initial_crane_def initial_3D_def)
  have e1: "initial_crane\<lparr>selectedError := ''sensor'', selectedError := []\<rparr>
      = initial_crane\<lparr>selectedError := []\<rparr>"
    and e2: "initial_3D\<lparr>selectedError := ''mechanical'', selectedError := []\<rparr>
      = initial_3D\<lparr>selectedError := []\<rparr>"
    by simp_all
  from error_report_accepted_iff_member [OF h1 h2] error_report_accepted_iff_member [OF h3 h4]
  show ?thesis
    unfolding s1 s2 s3 s4 using m by (simp add: e1 e2 del: set_map)
qed

section \<open>Requests\<close>

text \<open>
  C6, as the specification states it, renders the value in the path of a per-axis
  request with one fractional digit. The sender splices the number into the path as
  a template literal prints it: the accepted entry \<open>0.25\<close> is posted to \<open>/X/0.25\<close>,
  two digits after the point.
\<close>

theorem axis_path_keeps_every_fraction_digit:
  "map (\<lambda>q. (fst q, fractionDigits (fst q)))
     (requests (fst (snd (handleManualSubmit
        (initial_crane\<lparr>selectedAxis := ''x'', manualValue := ''0.25''\<rparr>) Fulfilled))))
     = [(''/X/0.25'', 2)]"
proof -
  have p: "parseFloat ''0.25'' = Fin 25 (- 2)" by code_simp
  have t: "toString (Fin 25 (- 2)) = ''0.25''" by code_simp
  have u: "toUpperCase ''x'' = ''X''" by code_simp
  have v: "valid_manual 1000000 (initial_crane\<lparr>selectedAxis := ''x'', manualValue := ''0.25''\<rparr>)"
    by (simp add: valid_manual_def p in_range_def mag_def)
  show ?thesis
    using handleManualSubmit_valid [OF v, of Fulfilled]
    by (simp add: sendIndividualAxisData_now p t u fractionDigits_def)
qed

text \<open>
  C6, amended. Every accepted per-axis command with axis \<open>x\<close>, \<open>y\<close> or \<open>z\<close> and value
  \<open>v\<close> is one POST to \<open>/<A>/<v>\<close> with an empty body, where \<open><A></\<close> is the axis letter in
  upper case and \<open><v></\<close> is the number as a template literal prints it, which is not
  limited to one fractional digit: 0.25 is printed \<open>0.25\<close>, 12.5 is printed \<open>12.5\<close>
  and 500000 is printed \<open>500000\<close>. The manual entry sends the number it parsed, the
  slider the number it was given.
\<close>

theorem axis_request_path:
  "map fst AXIS_OPTIONS = [''x'', ''y'', ''z'']
   \<and> requests (fst (sendIndividualAxisData ''x'' v r)) = [(''/X/'' @ toString v, NoBody)]
   \<and> requests (fst (sendIndividualAxisData ''y'' v r)) = [(''/Y/'' @ toString v, NoBody)]
   \<and> requests (fst (sendIndividualAxisData ''z'' v r)) = [(''/Z/'' @ toString v, NoBody)]
   \<and> (valid_manual 1000000 st \<longrightarrow>
        requests (fst (snd (handleManualSubmit st r)))
          = [(''/'' @ toUpperCase (selectedAxis st) @ ''/'' @ toString (parseFloat (manualValue st)),
              NoBody)])
   \<and> (handleSliderChange st axis (v # vs) r = Some res \<longrightarrow>
        requests (fst (snd res)) = [(''/'' @ toUpperCase axis @ ''/'' @ toString v, NoBody)])
   \<and> toString (Fin 25 (- 2)) = ''0.25''
   \<and> toString (Fin 125 (- 1)) = ''12.5''
   \<and> toString (Fin 5 5) = ''500000''"
proof -
  have u: "toUpperCase ''x'' = ''X''" "toUpperCase ''y'' = ''Y''" "toUpperCase ''z'' = ''Z''"
    by code_simp+
  have t: "toString (Fin 25 (- 2)) = ''0.25''" "toString (Fin 125 (- 1)) = ''12.5''"
    "toString (Fin 5 5) = ''500000''"
    by code_simp+
  have o: "map fst AXIS_OPTIONS = [''x'', ''y'', ''z'']"
    by (simp add: AXIS_OPTIONS_def)
  have a: "requests (fst (sendIndividualAxisData ''x'' v r)) = [(''/X/'' @ toString v, NoBody)]"
    and b: "requests (fst (sendIndividualAxisData ''y'' v r)) = [(''/Y/'' @ toString v, NoBody)]"
    and c: "requests (fst (sendIndividualAxisData ''z'' v r)) = [(''/Z/'' @ toString v, NoBody)]"
    by (simp_all add: sendIndividualAxisData_now u)
  have d: "valid_manual 1000000 st \<longrightarrow>
      requests (fst (snd (handleManualSubmit st r)))
        = [(''/'' @ toUpperCase (selectedAxis st) @ ''/'' @ toString (parseFloat (manualValue st)),
            NoBody)]"
    using handleManualSubmit_valid [of st r] by (simp add: sendIndividualAxisData_now)
  have e: "handleSliderChange st axis (v # vs) r = Some res \<longrightarrow>
      requests (fst (snd res)) = [(''/'' @ toUpperCase axis @ ''/'' @ toString v, NoBody)]"
    by (auto simp add: handleSliderChange_def Let_def sendIndividualAxisData_now)
  from o a b c d e t show ?thesis by blast
qed

theorem axis_request_path_witness:
  "requests (fst (snd (handleManualSubmit
      (initial_crane\<lparr>selectedAxis := ''x'', manualValue := ''500000''\<rparr>) Fulfilled)))
     = [(''/X/500000'', NoBody)]
   \<and> handleSliderChange initial_crane ''y'' [Fin 125 (- 1)] Fulfilled
     = Some (initial_crane\<lparr>axisValues := [(''x'', Fin 0 0), (''y'', Fin 125 (- 1)), (''z'', Fin 0 0)]\<rparr>,
        [ConsoleLog ''Sending individual axis data:'', Post ''/Y/12.5'' NoBody],
        [Toast \<lparr>title = ''Data sent successfully'', description = ''Y: 12.5'', variant = Default\<rparr>])
   \<and> requests [ConsoleLog ''Sending individual axis data:'', Post ''/Y/12.5'' NoBody]
     = [(''/Y/12.5'', NoBody)]"
proof -
  have p: "parseFloat ''500000'' = Fin 5 5" by code_simp
  have t: "toString (Fin 5 5) = ''500000''" "toString (Fin 125 (- 1)) = ''12.5''"
    by code_simp+
  have u: "toUpperCase ''x'' = ''X''" "toUpperCase ''y'' = ''Y''" by code_simp+
  have v: "valid_manual 1000000 (initial_crane\<lparr>selectedAxis := ''x'', manualValue := ''500000''\<rparr>)"
    by (simp add: valid_manual_def p in_range_def mag_def)
  have s: "handleSliderChange initial_crane ''y'' [Fin 125 (- 1)] Fulfilled
     = Some (initial_crane\<lparr>axisValues := [(''x'', Fin 0 0), (''y'', Fin 125 (- 1)), (''z'', Fin 0 0)]\<rparr>,
        [ConsoleLog ''Sending individual axis data:'', Post ''/Y/12.5'' NoBody],
        [Toast \<lparr>title = ''Data sent successfully'', description = ''Y: 12.5'', variant = Default\<rparr>])"
    by (simp add: handleSliderChange_def sendIndividualAxisData_def initial_crane_def t u)
  show ?thesis
    using
      axis_request_path
        [where st = "initial_crane\<lparr>selectedAxis := ''x'', manualValue := ''500000''\<rparr>"
           and r = Fulfilled]
      axis_request_path
        [where st = initial_crane and axis = "''y''" and v = "Fin 125 (- 1)" and vs = "[]"
           and r = Fulfilled]
      v s
    by (simp add: p t u)
qed

section \<open>State and outcome\<close>

text \<open>
  C10, as the specification states it, clears the input form fields of every
  submission that passes validation. The vehicle form does not: a valid code and key
  are posted and both fields keep their text.
\<close>

theorem vehicle_form_keeps_its_fields:
  "handleVehicleCodeFetch (initial_crane\<lparr>vehicleCode := ''123'', vehicleKey := ''k''\<rparr>) Fulfilled
     = (initial_crane\<lparr>vehicleCode := ''123'', vehicleKey := ''k''\<rparr>,
        [Post ''/vehicle/123/k'' NoBody],
        [Toast \<lparr>title = ''Data sent successfully'', description = ''Vehicle connected: 123'',
                variant = Default\<rparr>])"
proof -
  have p: "parseInt ''123'' = Fin 123 0" by code_simp
  have v: "valid_vehicle (initial_crane\<lparr>vehicleCode := ''123'', vehicleKey := ''k''\<rparr>)"
    by (simp add: valid_vehicle_def p in_range_def)
  show ?thesis
    using handleVehicleCodeFetch_valid [OF v, of Fulfilled] by (simp add: sendVehicleCode_def)
qed

text \<open>
  C10, amended. A weight or manual-entry submission that passes validation clears its
  form fields as soon as the request has been started, whatever becomes of the
  request: the weight handler posts the weight and empties the weight field, the
  manual entry posts the value and empties the value field and the axis selection.
  The outcome is reported only afterwards; when the request fails, the failure toast
  is raised and the fields stay empty. A vehicle submission that passes validation
  is posted and keeps its code and key fields.
\<close>

theorem form_cleared_when_dispatched:
  "(valid_weight st \<longrightarrow>
      handleWeightSubmit st r
          = (st\<lparr>weight := []\<rparr>,
             [ConsoleLog ''Sending weight data:'',
              Post ''/weight'' (WeightBody (parseFloat (weight st)))],
             snd (sendWeightData (parseFloat (weight st)) r))
      \<and> handleWeightSubmit st Rejected
          = (st\<lparr>weight := []\<rparr>,
             [ConsoleLog ''Sending weight data:'',
              Post ''/weight'' (WeightBody (parseFloat (weight st)))],
             [ConsoleError ''Error sending weight data:'',
              Toast \<lparr>title = ''Error sending weight'', description = ''Failed to send weight data'',
                     variant = Destructive\<rparr>]))
   \<and> (valid_manual 1000000 st \<longrightarrow>
      handleManualSubmit st r
          = (st\<lparr>axisValues :=
                   AList.update (selectedAxis st) (parseFloat (manualValue st)) (axisValues st),
                 manualValue := [], selectedAxis := []\<rparr>,
             [ConsoleLog ''Sending individual axis data:'',
              Post (''/'' @ toUpperCase (selectedAxis st) @ ''/''
                    @ toString (parseFloat (manualValue st))) NoBody],
             snd (sendIndividualAxisData (selectedAxis st) (parseFloat (manualValue st)) r))
      \<and> handleManualSubmit st Rejected
          = (st\<lparr>axisValues :=
                   AList.update (selectedAxis st) (parseFloat (manualValue st)) (axisValues st),
                 manualValue := [], selectedAxis := []\<rparr>,
             [ConsoleLog ''Sending individual axis data:'',
              Post (''/'' @ toUpperCase (selectedAxis st) @ ''/''
                    @ toString (parseFloat (manualValue st))) NoBody],
             [ConsoleError ''Error sending individual axis data:'',
              Toast \<lparr>title = ''Error sending data'',
                     description = ''Failed to send '' @ selectedAxis st @ '' axis value'',
                     variant = Destructive\<rparr>]))
   \<and> (valid_vehicle st \<longrightarrow>
      handleVehicleCodeFetch st r
          = (st, [Post (''/vehicle/'' @ vehicleCode st @ ''/'' @ vehicleKey st) NoBody],
             snd (sendVehicleCode (vehicleCode st, vehicleKey st) ''empty'' r)))"
proof -
  have w: "handleWeightSubmit st r
          = (st\<lparr>weight := []\<rparr>,
             [ConsoleLog ''Sending weight data:'',
              Post ''/weight'' (WeightBody (parseFloat (weight st)))],
             snd (sendWeightData (parseFloat (weight st)) r))
      \<and> handleWeightSubmit st Rejected
          = (st\<lparr>weight := []\<rparr>,
             [ConsoleLog ''Sending weight data:'',
              Post ''/weight'' (WeightBody (parseFloat (weight st)))],
             [ConsoleError ''Error sending weight data:'',
              Toast \<lparr>title = ''Error sending weight'', description = ''Failed to send weight data'',
                     variant = Destructive\<rparr>])" if "valid_weight st"
    using handleWeightSubmit_valid [OF that, of r] handleWeightSubmit_valid [OF that, of Rejected]
    by (simp add: sendWeightData_def)
  have m: "handleManualSubmit st r
          = (st\<lparr>axisValues :=
                   AList.update (selectedAxis st) (parseFloat (manualValue st)) (axisValues st),
                 manualValue := [], selectedAxis := []\<rparr>,
             [ConsoleLog ''Sending individual axis data:'',
              Post (''/'' @ toUpperCase (selectedAxis st) @ ''/''
                    @ toString (parseFloat (manualValue st))) NoBody],
             snd (sendIndividualAxisData (selectedAxis st) (parseFloat (manualValue st)) r))
      \<and> handleManualSubmit st Rejected
          = (st\<lparr>axisValues :=
                   AList.update (selectedAxis st) (parseFloat (manualValue st)) (axisValues st),
                 manualValue := [], selectedAxis := []\<rparr>,
             [ConsoleLog ''Sending individual axis data:'',
              Post (''/'' @ toUpperCase (selectedAxis st) @ ''/''
                    @ toString (parseFloat (manualValue st))) NoBody],
             [ConsoleError ''Error sending individual axis data:'',
              Toast \<lparr>title = ''Error sending data'',
                     description = ''Failed to send '' @ selectedAxis st @ '' axis value'',
                     variant = Destructive\<rparr>])" if "valid_manual 1000000 st"
    using handleManualSubmit_valid [OF that, of r] handleManualSubmit_valid [OF that, of Rejected]
    by (simp add: sendIndividualAxisData_def)
  have v: "handleVehicleCodeFetch st r
          = (st, [Post (''/vehicle/'' @ vehicleCode st @ ''/'' @ vehicleKey st) NoBody],
             snd (sendVehicleCode (vehicleCode st, vehicleKey st) ''empty'' r))"
    if "valid_vehicle st"
    using handleVehicleCodeFetch_valid [OF that, of r] by (simp add: sendVehicleCode_now)
  from w m v show ?thesis by blast
qed

theorem form_cleared_when_dispatched_witness:
  "handleWeightSubmit
      (initial_crane\<lparr>selectedAxis := ''x'', manualValue := ''500000'', vehicleCode := ''123'',
         vehicleKey := ''k'', weight := ''12.5''\<rparr>) Rejected
     = (initial_crane\<lparr>selectedAxis := ''x'', manualValue := ''500000'', vehicleCode := ''123'',
          vehicleKey := ''k'', weight := []\<rparr>,
        [ConsoleLog ''Sending weight data:'', Post ''/weight'' (WeightBody (Fin 125 (- 1)))],
        [ConsoleError ''Error sending weight data:'',
         Toast \<lparr>title = ''Error sending weight'', description = ''Failed to send weight data'',
                variant = Destructive\<rparr>])
   \<and> handleManualSubmit
      (initial_crane\<lparr>selectedAxis := ''x'', manualValue := ''500000'', vehicleCode := ''123'',
         vehicleKey := ''k'', weight := ''12.5''\<rparr>) Rejected
     = (initial_crane\<lparr>axisValues := [(''x'', Fin 5 5), (''y'', Fin 0 0), (''z'', Fin 0 0)],
          selectedAxis := [], manualValue := [], vehicleCode := ''123'', vehicleKey := ''k'',
          weight := ''12.5''\<rparr>,
        [ConsoleLog ''Sending individual axis data:'', Post ''/X/500000'' NoBody],
        [ConsoleError ''Error sending individual axis data:'',
         Toast \<lparr>title = ''Error sending data'', description = ''Failed to send x axis value'',
                variant = Destructive\<rparr>])
   \<and> handleVehicleCodeFetch
      (initial_crane\<lparr>selectedAxis := ''x'', manualValue := ''500000'', vehicleCode := ''123'',
         vehicleKey := ''k'', weight := ''12.5''\<rparr>) Rejected
     = (initial_crane\<lparr>selectedAxis := ''x'', manualValue := ''500000'', vehicleCode := ''123'',
          vehicleKey := ''k'', weight := ''12.5''\<rparr>,
        [Post ''/vehicle/123/k'' NoBody],
        [ConsoleError ''Error sending data:'',
         Toast \<lparr>title = ''Error sending data'', description = ''Failed to connect vehicle'',
                variant = Destructive\<rparr>])"
proof -
  have p: "parseFloat ''500000'' = Fin 5 5" "parseFloat ''12.5'' = Fin 125 (- 1)"
    "parseInt ''123'' = Fin 123 0"
    by code_simp+
  have t: "toString (Fin 5 5) = ''500000''" by code_simp
  have u: "toUpperCase ''x'' = ''X''" by code_simp
  have v: "valid_manual 1000000
      (initial_crane\<lparr>selectedAxis := ''x'', manualValue := ''500000'', vehicleCode := ''123'',
         vehicleKey := ''k'', weight := ''12.5''\<rparr>)"
    by (simp add: valid_manual_def p in_range_def mag_def)
  have w: "valid_weight
      (initial_crane\<lparr>selectedAxis := ''x'', manualValue := ''500000'', vehicleCode := ''123'',
         vehicleKey := ''k'', weight := ''12.5''\<rparr>)"
    by (simp add: valid_weight_def p positive_def mag_def)
  have c: "valid_vehicle
      (initial_crane\<lparr>selectedAxis := ''x'', manualValue := ''500000'', vehicleCode := ''123'',
         vehicleKey := ''k'', weight := ''12.5''\<rparr>)"
    by (simp add: valid_vehicle_def p in_range_def)
  show ?thesis
    using form_cleared_when_dispatched
      [of "initial_crane\<lparr>selectedAxis := ''x'', manualValue := ''500000'', vehicleCode := ''123'',
             vehicleKey := ''k'', weight := ''12.5''\<rparr>" Rejected] v w c
    by (simp add: p t u initial_crane_def sendVehicleCode_def sendWeightData_def
        sendIndividualAxisData_def)
qed

text \<open>
  C2, as the specification states it, updates the displayed axis values only after
  the dispatcher has reported success, and leaves them as they were on failure. The
  handlers set the new value before they send it and never return to it: after a
  slider change whose request fails, the panel shows the new value and a failure
  toast.
\<close>

theorem slider_failure_keeps_new_value:
  "handleSliderChange initial_crane ''x'' [Fin 5 0] Rejected
     = Some (initial_crane\<lparr>axisValues := [(''x'', Fin 5 0), (''y'', Fin 0 0), (''z'', Fin 0 0)]\<rparr>,
        [ConsoleLog ''Sending individual axis data:'', Post ''/X/5'' NoBody],
        [ConsoleError ''Error sending individual axis data:'',
         Toast \<lparr>title = ''Error sending data'', description = ''Failed to send x axis value'',
                variant = Destructive\<rparr>])
   \<and> axisValues initial_crane = [(''x'', Fin 0 0), (''y'', Fin 0 0), (''z'', Fin 0 0)]"
proof -
  have t: "toString (Fin 5 0) = ''5''" by code_simp
  have u: "toUpperCase ''x'' = ''X''" by code_simp
  show ?thesis
    by (simp add: handleSliderChange_def sendIndividualAxisData_def initial_crane_def t u)
qed

text \<open>
  C2, amended. For every axis command that is dispatched (a slider change, or a manual
  entry that passes validation) the displayed axis values are set to the new value when
  the handler runs, before the outcome of the request is known and whatever it turns
  out to be: a failure adds the failure toast and leaves the new value displayed. The
  weight form has no displayed value; a weight submission leaves the axis values as
  they are.
\<close>

theorem axis_values_set_before_outcome:
  "handleSliderChange st axis (v # vs) r
     = Some (st\<lparr>axisValues := AList.update axis v (axisValues st)\<rparr>,
        fst (sendIndividualAxisData axis v r), snd (sendIndividualAxisData axis v r))
   \<and> map_of (AList.update axis v (axisValues st)) axis = Some v
   \<and> (valid_manual 1000000 st \<longrightarrow>
        axisValues (fst (handleManualSubmit st r))
          = AList.update (selectedAxis st) (parseFloat (manualValue st)) (axisValues st))
   \<and> notifications (snd (sendIndividualAxisData axis v Rejected))
       = [\<lparr>title = ''Error sending data'',
           description = ''Failed to send '' @ axis @ '' axis value'', variant = Destructive\<rparr>]
   \<and> axisValues (fst (handleWeightSubmit st r)) = axisValues st"
proof -
  have a: "handleSliderChange st axis (v # vs) r
     = Some (st\<lparr>axisValues := AList.update axis v (axisValues st)\<rparr>,
        fst (sendIndividualAxisData axis v r), snd (sendIndividualAxisData axis v r))"
    by (simp add: handleSliderChange_def Let_def)
  have b: "map_of (AList.update axis v (axisValues st)) axis = Some v"
    by (simp add: update_conv')
  have c: "valid_manual 1000000 st \<longrightarrow>
        axisValues (fst (handleManualSubmit st r))
          = AList.update (selectedAxis st) (parseFloat (manualValue st)) (axisValues st)"
    using handleManualSubmit_valid [of st r] by simp
  have d: "notifications (snd (sendIndividualAxisData axis v Rejected))
       = [\<lparr>title = ''Error sending data'',
           description = ''Failed to send '' @ axis @ '' axis value'', variant = Destructive\<rparr>]"
    by (simp add: sendIndividualAxisData_def)
  have e: "axisValues (fst (handleWeightSubmit st r)) = axisValues st"
    by (simp add: handleWeightSubmit_def Let_def)
  from a b c d e show ?thesis by blast
qed

theorem axis_values_set_before_outcome_witness:
  "axisValues (fst (handleManualSubmit
      (initial_crane\<lparr>selectedAxis := ''z'', manualValue := ''0.25''\<rparr>) Rejected))
     = [(''x'', Fin 0 0), (''y'', Fin 0 0), (''z'', Fin 25 (- 2))]
   \<and> handleSliderChange (initial_crane\<lparr>selectedAxis := ''z'', manualValue := ''0.25''\<rparr>)
        ''y'' [Fin 7 0] Rejected
     = Some (initial_crane\<lparr>axisValues := [(''x'', Fin 0 0), (''y'', Fin 7 0), (''z'', Fin 0 0)],
                           selectedAxis := ''z'', manualValue := ''0.25''\<rparr>,
        [ConsoleLog ''Sending individual axis data:'', Post ''/Y/7'' NoBody],
        [ConsoleError ''Error sending individual axis data:'',
         Toast \<lparr>title = ''Error sending data'', description = ''Failed to send y axis value'',
                variant = Destructive\<rparr>])"
proof -
  have p: "parseFloat ''0.25'' = Fin 25 (- 2)" by code_simp
  have t: "toString (Fin 7 0) = ''7''" by code_simp
  have u: "toUpperCase ''y'' = ''Y''" by code_simp
  have v: "valid_manual 1000000 (initial_crane\<lparr>selectedAxis := ''z'', manualValue := ''0.25''\<rparr>)"
    by (simp add: valid_manual_def p in_range_def mag_def)
  show ?thesis
    using axis_values_set_before_outcome
      [of "initial_crane\<lparr>selectedAxis := ''z'', manualValue := ''0.25''\<rparr>" "''y''" "Fin 7 0" "[]"
          Rejected] v
    by (simp add: p t u initial_crane_def sendIndividualAxisData_def)
qed


section \<open>The two panels\<close>

text \<open>
  C9, as the specification states it, has the two panels differ in the ceiling only,
  and dispatch an accepted input alike whenever it is within both ceilings. For the
  entry \<open>7.5\<close> on the axis \<open>x\<close>, within both ceilings, the crane panel posts the value
  to \<open>/X/7.5\<close> and notifies when the request has settled, while the 3D panel sends
  nothing and notifies of the three values at once.
\<close>

theorem panels_dispatch_differently:
  "handleManualSubmit (initial_crane\<lparr>selectedAxis := ''x'', manualValue := ''7.5''\<rparr>) Fulfilled
     = (initial_crane\<lparr>axisValues := [(''x'', Fin 75 (- 1)), (''y'', Fin 0 0), (''z'', Fin 0 0)]\<rparr>,
        [ConsoleLog ''Sending individual axis data:'', Post ''/X/7.5'' NoBody],
        [Toast \<lparr>title = ''Data sent successfully'', description = ''X: 7.5'', variant = Default\<rparr>])
   \<and> handleManualSubmit_3D
        (panel.truncate (initial_crane\<lparr>selectedAxis := ''x'', manualValue := ''7.5''\<rparr>))
     = (panel.truncate
          (initial_crane\<lparr>axisValues := [(''x'', Fin 75 (- 1)), (''y'', Fin 0 0), (''z'', Fin 0 0)]\<rparr>),
        [ConsoleLog ''Sending axis data:'',
         Toast \<lparr>title = ''Data sent successfully'',
                description = ''X: 7.5, Y: 0, Z: 0 (via manual)'', variant = Default\<rparr>])
   \<and> requests (snd (handleManualSubmit_3D
        (panel.truncate (initial_crane\<lparr>selectedAxis := ''x'', manualValue := ''7.5''\<rparr>)))) = []"
proof -
  have p: "parseFloat ''7.5'' = Fin 75 (- 1)" by code_simp
  have t: "toString (Fin 75 (- 1)) = ''7.5''" "toString (Fin 0 0) = ''0''" by code_simp+
  have u: "toUpperCase ''x'' = ''X''" by code_simp
  have r: "in_range 1000000 (Fin 75 (- 1))" "in_range 100 (Fin 75 (- 1))"
    by (simp_all add: in_range_def mag_def)
  have v: "valid_manual 1000000 (initial_crane\<lparr>selectedAxis := ''x'', manualValue := ''7.5''\<rparr>)"
    by (simp add: valid_manual_def p r)
  have w: "valid_manual 100
      (panel.truncate (initial_crane\<lparr>selectedAxis := ''x'', manualValue := ''7.5''\<rparr>))"
    by (simp add: valid_manual_def p r panel.truncate_def)
  show ?thesis
    using handleManualSubmit_valid [OF v, of Fulfilled] handleManualSubmit_3D_valid [OF w]
    by (simp add: p t u initial_crane_def panel.truncate_def sendIndividualAxisData_def
        sendAxisData_3D_def property_def)
qed

text \<open>
  C9, amended. On the same form state the two panels agree on the validation of a
  manual entry unless the parsed value lies above 100 and within 1000000: both accept
  or both reject, with toasts of the same title, and both leave the same state behind
  (the axis value set and the fields cleared on acceptance, nothing changed on
  rejection). Their error reports are the same. They differ in the dispatch of an
  accepted entry: the crane panel posts the value to \<open>/<AXIS>/<value>\<close>, notifies of
  nothing while the request is pending, and raises one toast when it has settled
  (the axis and value on success, the failure toast otherwise); the 3D panel never
  sends a request and raises its toast at once, with all three axis values.
\<close>

theorem panels_agree_on_validation:
  "(selectedAxis st = [] \<or> manualValue st = [] \<or> in_range 100 (parseFloat (manualValue st))
      \<or> \<not> in_range 1000000 (parseFloat (manualValue st)) \<longrightarrow>
        map title (rejections (fst (snd (handleManualSubmit st r))))
          = map title (rejections (snd (handleManualSubmit_3D (panel.truncate st))))
        \<and> panel.truncate (fst (handleManualSubmit st r))
          = fst (handleManualSubmit_3D (panel.truncate st)))
   \<and> requests (snd (handleManualSubmit_3D (panel.truncate st))) = []
   \<and> (valid_manual 1000000 st \<longrightarrow>
        fst (snd (handleManualSubmit st r))
          = [ConsoleLog ''Sending individual axis data:'',
             Post (''/'' @ toUpperCase (selectedAxis st) @ ''/''
                   @ toString (parseFloat (manualValue st))) NoBody]
        \<and> snd (snd (handleManualSubmit st Fulfilled))
          = [Toast \<lparr>title = ''Data sent successfully'',
                    description = toUpperCase (selectedAxis st) @ '': ''
                      @ toString (parseFloat (manualValue st)),
                    variant = Default\<rparr>]
        \<and> snd (snd (handleManualSubmit st Rejected))
          = [ConsoleError ''Error sending individual axis data:'',
             Toast \<lparr>title = ''Error sending data'',
                    description = ''Failed to send '' @ selectedAxis st @ '' axis value'',
                    variant = Destructive\<rparr>])
   \<and> (valid_manual 100 (panel.truncate st) \<longrightarrow>
        snd (handleManualSubmit_3D (panel.truncate st))
          = [ConsoleLog ''Sending axis data:'',
             Toast \<lparr>title = ''Data sent successfully'',
                    description =
                      ''X: '' @ property (AList.update (selectedAxis st)
                                 (parseFloat (manualValue st)) (axisValues st)) ''x''
                      @ '', Y: '' @ property (AList.update (selectedAxis st)
                                 (parseFloat (manualValue st)) (axisValues st)) ''y''
                      @ '', Z: '' @ property (AList.update (selectedAxis st)
                                 (parseFloat (manualValue st)) (axisValues st)) ''z''
                      @ '' (via manual)'',
                    variant = Default\<rparr>])
   \<and> fst (snd (handleErrorSubmit st)) = snd (handleErrorSubmit_3D (panel.truncate st))
   \<and> panel.truncate (fst (handleErrorSubmit st)) = fst (handleErrorSubmit_3D (panel.truncate st))"
proof -
  let ?p = "panel.truncate st" and ?v = "parseFloat (manualValue st)"
  have sel: "selectedAxis ?p = selectedAxis st" "manualValue ?p = manualValue st"
    "selectedError ?p = selectedError st" "axisValues ?p = axisValues st"
    by (simp_all add: panel.truncate_def)
  have mono: "in_range 1000000 ?v" if "in_range 100 ?v"
    using that by (cases ?v) (auto simp add: in_range_def)
  have a: "map title (rejections (fst (snd (handleManualSubmit st r))))
          = map title (rejections (snd (handleManualSubmit_3D ?p)))
        \<and> panel.truncate (fst (handleManualSubmit st r)) = fst (handleManualSubmit_3D ?p)"
    if h: "selectedAxis st = [] \<or> manualValue st = [] \<or> in_range 100 ?v
      \<or> \<not> in_range 1000000 ?v"
  proof (cases "selectedAxis st = [] \<or> manualValue st = []")
    case True
    then have "selectedAxis ?p = [] \<or> manualValue ?p = []" by (simp add: sel)
    from handleManualSubmit_missing [OF True, of r] handleManualSubmit_3D_missing [OF this]
    show ?thesis by (simp add: rejections_def)
  next
    case False
    show ?thesis
    proof (cases "in_range 100 ?v")
      case True
      with False mono have "valid_manual 1000000 st" and "valid_manual 100 ?p"
        by (simp_all add: valid_manual_def sel)
      from handleManualSubmit_valid [OF this(1), of r] handleManualSubmit_3D_valid [OF this(2)]
      show ?thesis
        by (simp add: rejections_def sendIndividualAxisData_now sendAxisData_3D_def sel
            panel.truncate_def)
    next
      case no: False
      with h \<open>\<not> (selectedAxis st = [] \<or> manualValue st = [])\<close>
      have "\<not> in_range 1000000 ?v" by simp
      with False no handleManualSubmit_range [of st r] handleManualSubmit_3D_range [of ?p]
      show ?thesis by (simp add: rejections_def sel)
    qed
  qed
  have b: "requests (snd (handleManualSubmit_3D ?p)) = []"
    by (simp add: handleManualSubmit_3D_def sendAxisData_3D_def Let_def)
  have c: "fst (snd (handleManualSubmit st r))
          = [ConsoleLog ''Sending individual axis data:'',
             Post (''/'' @ toUpperCase (selectedAxis st) @ ''/'' @ toString ?v) NoBody]
        \<and> snd (snd (handleManualSubmit st Fulfilled))
          = [Toast \<lparr>title = ''Data sent successfully'',
                    description = toUpperCase (selectedAxis st) @ '': '' @ toString ?v,
                    variant = Default\<rparr>]
        \<and> snd (snd (handleManualSubmit st Rejected))
          = [ConsoleError ''Error sending individual axis data:'',
             Toast \<lparr>title = ''Error sending data'',
                    description = ''Failed to send '' @ selectedAxis st @ '' axis value'',
                    variant = Destructive\<rparr>]" if "valid_manual 1000000 st"
    using handleManualSubmit_valid [OF that, of r] handleManualSubmit_valid [OF that, of Fulfilled]
      handleManualSubmit_valid [OF that, of Rejected]
    by (simp add: sendIndividualAxisData_def)
  have c3: "snd (handleManualSubmit_3D ?p)
          = [ConsoleLog ''Sending axis data:'',
             Toast \<lparr>title = ''Data sent successfully'',
                    description =
                      ''X: '' @ property (AList.update (selectedAxis st) ?v (axisValues st)) ''x''
                      @ '', Y: '' @ property (AList.update (selectedAxis st) ?v (axisValues st)) ''y''
                      @ '', Z: '' @ property (AList.update (selectedAxis st) ?v (axisValues st)) ''z''
                      @ '' (via manual)'',
                    variant = Default\<rparr>]" if "valid_manual 100 ?p"
    using handleManualSubmit_3D_valid [OF that] by (simp add: sendAxisData_3D_def sel)
  have d: "fst (snd (handleErrorSubmit st)) = snd (handleErrorSubmit_3D ?p)
      \<and> panel.truncate (fst (handleErrorSubmit st)) = fst (handleErrorSubmit_3D ?p)"
    by (simp add: handleErrorSubmit_def handleErrorSubmit_3D_def sendErrorData_def
        sendErrorData_3D_def panel.truncate_def)
  from a b c c3 d show ?thesis by blast
qed

theorem panels_agree_on_validation_witness:
  "map title (rejections (fst (snd (handleManualSubmit
      (initial_crane\<lparr>selectedAxis := ''x'', manualValue := ''2000000''\<rparr>) Fulfilled))))
     = [''Invalid value'']
   \<and> map title (rejections (snd (handleManualSubmit_3D
        (panel.truncate (initial_crane\<lparr>selectedAxis := ''x'', manualValue := ''2000000''\<rparr>)))))
     = [''Invalid value'']
   \<and> panel.truncate (fst (handleManualSubmit
        (initial_crane\<lparr>selectedAxis := ''x'', manualValue := ''7.5''\<rparr>) Fulfilled))
     = fst (handleManualSubmit_3D
        (panel.truncate (initial_crane\<lparr>selectedAxis := ''x'', manualValue := ''7.5''\<rparr>)))
   \<and> handleManualSubmit (initial_crane\<lparr>selectedAxis := ''x'', manualValue := ''7.5''\<rparr>) Rejected
     = (initial_crane\<lparr>axisValues := [(''x'', Fin 75 (- 1)), (''y'', Fin 0 0), (''z'', Fin 0 0)]\<rparr>,
        [ConsoleLog ''Sending individual axis data:'', Post ''/X/7.5'' NoBody],
        [ConsoleError ''Error sending individual axis data:'',
         Toast \<lparr>title = ''Error sending data'', description = ''Failed to send x axis value'',
                variant = Destructive\<rparr>])
   \<and> snd (handleManualSubmit_3D
        (panel.truncate (initial_crane\<lparr>selectedAxis := ''x'', manualValue := ''7.5''\<rparr>)))
     = [ConsoleLog ''Sending axis data:'',
        Toast \<lparr>title = ''Data sent successfully'',
               description = ''X: 7.5, Y: 0, Z: 0 (via manual)'', variant = Default\<rparr>]"
proof -
  have p: "parseFloat ''7.5'' = Fin 75 (- 1)" "parseFloat ''2000000'' = Fin 2 6" by code_simp+
  have t: "toString (Fin 75 (- 1)) = ''7.5''" "toString (Fin 0 0) = ''0''" by code_simp+
  have u: "toUpperCase ''x'' = ''X''" by code_simp
  have r: "in_range 1000000 (Fin 75 (- 1))" "in_range 100 (Fin 75 (- 1))"
    "\<not> in_range 1000000 (Fin 2 6)"
    by (simp_all add: in_range_def mag_def)
  have v: "valid_manual 1000000 (initial_crane\<lparr>selectedAxis := ''x'', manualValue := ''7.5''\<rparr>)"
    by (simp add: valid_manual_def p r)
  have w: "valid_manual 100
      (panel.truncate (initial_crane\<lparr>selectedAxis := ''x'', manualValue := ''7.5''\<rparr>))"
    by (simp add: valid_manual_def p r panel.truncate_def)
  have n: "handleManualSubmit (initial_crane\<lparr>selectedAxis := ''x'', manualValue := ''2000000''\<rparr>)
      Fulfilled
     = (initial_crane\<lparr>selectedAxis := ''x'', manualValue := ''2000000''\<rparr>,
        [Toast \<lparr>title = ''Invalid value'',
                description = ''Please enter a value between 0 and 1000000'',
                variant = Destructive\<rparr>], [])"
    by (rule handleManualSubmit_range) (simp_all add: p r)
  have s: "fst (handleManualSubmit (initial_crane\<lparr>selectedAxis := ''x'', manualValue := ''7.5''\<rparr>)
      Rejected)
     = initial_crane\<lparr>axisValues := [(''x'', Fin 75 (- 1)), (''y'', Fin 0 0), (''z'', Fin 0 0)]\<rparr>"
    using handleManualSubmit_valid [OF v, of Rejected] by (simp add: p initial_crane_def)
  have q: "handleManualSubmit (initial_crane\<lparr>selectedAxis := ''x'', manualValue := ''7.5''\<rparr>) Rejected
     = (initial_crane\<lparr>axisValues := [(''x'', Fin 75 (- 1)), (''y'', Fin 0 0), (''z'', Fin 0 0)]\<rparr>,
        [ConsoleLog ''Sending individual axis data:'', Post ''/X/7.5'' NoBody],
        [ConsoleError ''Error sending individual axis data:'',
         Toast \<lparr>title = ''Error sending data'', description = ''Failed to send x axis value'',
                variant = Destructive\<rparr>])"
    using
      panels_agree_on_validation
        [of "initial_crane\<lparr>selectedAxis := ''x'', manualValue := ''7.5''\<rparr>" Rejected] v s
    by (simp add: p t u prod_eq_iff)
  have c3: "snd (handleManualSubmit_3D
        (panel.truncate (initial_crane\<lparr>selectedAxis := ''x'', manualValue := ''7.5''\<rparr>)))
     = [ConsoleLog ''Sending axis data:'',
        Toast \<lparr>title = ''Data sent successfully'',
               description = ''X: 7.5, Y: 0, Z: 0 (via manual)'', variant = Default\<rparr>]"
    using
      panels_agree_on_validation
        [of "initial_crane\<lparr>selectedAxis := ''x'', manualValue := ''7.5''\<rparr>" Rejected] w
    by (simp add: p t initial_crane_def property_def)
  show ?thesis
    using
      panels_agree_on_validation
        [of "initial_crane\<lparr>selectedAxis := ''x'', manualValue := ''2000000''\<rparr>" Fulfilled]
      panels_agree_on_validation
        [of "initial_crane\<lparr>selectedAxis := ''x'', manualValue := ''7.5''\<rparr>" Fulfilled]
      n q c3
    by (simp add: p r rejections_def)
qed

end
